theory Spec2Isabelle
  imports Main
begin

section \<open>JavaScript values\<close>

text \<open>
  Both scripts are glue around JSON documents, HTTP exchanges and one file. Strings are
  modelled as \<^typ>\<open>string\<close> (sequences of 8-bit code units), numbers as \<^typ>\<open>int\<close>
  (epoch milliseconds, lifetimes in whole seconds, request ids), the exceptions of the
  source as values of the type \<open>error\<close>. A JSON object is the list of its members, each
  name once, as \<open>JSON.parse\<close> delivers it.
\<close>

datatype jsval =
    JNull
  | JBool bool
  | JNum int
  | JStr string
  | JArr "jsval list"
  | JObj "(string \<times> jsval) list"

text \<open>
  A property of an object read at a fixed type: \<open>undefined\<close> (not there), \<open>null\<close>, or
  a value. The credential record and the token endpoint's reply are read at the types the
  token store's format gives their fields: strings, and a number or \<open>null\<close> for
  \<open>expires_at\<close> and \<open>expires_in\<close>. Records with a field of another type are outside
  the model.
\<close>

datatype 'a jsfield = Undefined | Null | Val 'a

text \<open>
  What \<open>JSON.parse\<close> returns when it does not throw, seen at the record type its
  caller reads it at: a JSON object, or a value that is no object (\<open>null\<close>, a boolean,
  a number, a string, an array), all of whose properties of interest are \<open>undefined\<close>.
\<close>

datatype 'a jsres = NonObject jsval | Object 'a

datatype error =
    TypeError                             \<comment> \<open>property read on \<open>null\<close>, iteration over a non-iterable\<close>
  | SyntaxError                           \<comment> \<open>\<open>JSON.parse\<close> / \<open>response.json()\<close> on a text that is no JSON\<close>
  | NetworkError                          \<comment> \<open>\<open>fetch\<close> rejects\<close>
  | NoRefreshToken                        \<comment> \<open>\<open>'No refresh token available'\<close>\<close>
  | TokenRefreshError nat                 \<comment> \<open>\<open>'Token refresh failed: ' + status\<close>\<close>
  | TransportError nat string             \<comment> \<open>\<open>'MCP call failed: ' + status + ' ' + text\<close>\<close>
  | EmptyStreamResponseError              \<comment> \<open>\<open>'No response received from SSE stream'\<close>\<close>
  | SessionInitializationError "jsval option"  \<comment> \<open>\<open>'Initialize failed: ' + result.error.message\<close>\<close>
  | ClientRegistrationError nat string    \<comment> \<open>\<open>'Client registration failed: ' + status + ' ' + text\<close>\<close>
  | TokenExchangeError nat string         \<comment> \<open>\<open>'Token exchange failed: ' + status + ' ' + text\<close>\<close>
  | AuthorizationError string             \<comment> \<open>\<open>new Error(error)\<close>: the message is the error code\<close>
  | CsrfError                             \<comment> \<open>\<open>'State mismatch'\<close>\<close>
  | AuthorizationTimeoutError             \<comment> \<open>\<open>'OAuth flow timed out'\<close>\<close>
  | BrowserLaunchError                    \<comment> \<open>\<open>execSync\<close> throws\<close>

text \<open>Truthiness, as \<open>if (v)\<close>, \<open>!v\<close> and \<open>c ? a : b\<close> test it.\<close>

fun truthy :: "jsval \<Rightarrow> bool" where
  "truthy JNull = False"
| "truthy (JBool b) = b"
| "truthy (JNum n) = (n \<noteq> 0)"
| "truthy (JStr s) = (s \<noteq> [])"
| "truthy (JArr xs) = True"
| "truthy (JObj kvs) = True"

fun truthy_str :: "string jsfield \<Rightarrow> bool" where
  "truthy_str (Val s) = (s \<noteq> [])"
| "truthy_str Undefined = False"
| "truthy_str Null = False"

fun truthy_num :: "int jsfield \<Rightarrow> bool" where
  "truthy_num (Val n) = (n \<noteq> 0)"
| "truthy_num Undefined = False"
| "truthy_num Null = False"

text \<open>String conversion of a field inside a template literal or \<open>URLSearchParams\<close>.\<close>

fun str_of :: "string jsfield \<Rightarrow> string" where
  "str_of (Val s) = s"
| "str_of Undefined = ''undefined''"
| "str_of Null = ''null''"

text \<open>
  \<open>v.k\<close> for the property names the scripts read (none of them is inherited from a
  prototype): \<open>None\<close> is \<open>undefined\<close>; reading a property of \<open>null\<close> throws.
\<close>

fun js_get :: "jsval \<Rightarrow> string \<Rightarrow> error + jsval option" where
  "js_get JNull k = Inl TypeError"
| "js_get (JObj kvs) k = Inr (map_of kvs k)"
| "js_get v k = Inr None"

section \<open>Strings\<close>

text \<open>\<open>s.startsWith(p)\<close>, \<open>s.includes(p)\<close>, \<open>s.split(c)\<close> and \<open>s.trim()\<close>.\<close>

definition startsWith :: "string \<Rightarrow> string \<Rightarrow> bool" where
  "startsWith s p = (take (length p) s = p)"

fun str_includes :: "string \<Rightarrow> string \<Rightarrow> bool" where
  "str_includes [] p = (p = [])"
| "str_includes (c # cs) p = (startsWith (c # cs) p \<or> str_includes cs p)"

fun str_split :: "string \<Rightarrow> char \<Rightarrow> string list" where
  "str_split [] sep = [[]]"
| "str_split (c # cs) sep =
     (if c = sep then [] # str_split cs sep
      else (case str_split cs sep of [] \<Rightarrow> [[c]] | l # ls \<Rightarrow> (c # l) # ls))"

definition white_space :: "char \<Rightarrow> bool" where
  "white_space c = (c \<in> set [CHR 0x09, CHR 0x0A, CHR 0x0B, CHR 0x0C, CHR 0x0D, CHR 0x20, CHR 0xA0])"

definition trim :: "string \<Rightarrow> string" where
  "trim s = rev (dropWhile white_space (rev (dropWhile white_space s)))"

section \<open>Tool Invoker: parsing an event stream\<close>

text \<open>
  \<open>parseSSEResponse\<close>. \<open>JSON.parse\<close> is the platform's: it is a parameter, \<open>None\<close>
  where it throws. The body of the \<open>for\<close> loop is \<open>sse_line\<close>; \<open>result\<close> starts as
  \<open>null\<close> (\<open>None\<close>) and is assigned at every line that qualifies.
\<close>

definition is_response :: "jsval \<Rightarrow> bool" where
  "is_response parsed =
     (case js_get parsed ''jsonrpc'' of
        Inl e \<Rightarrow> False
      | Inr j \<Rightarrow> j = Some (JStr ''2.0'') \<and> js_get parsed ''id'' \<noteq> Inr None)"

definition sse_line :: "(string \<Rightarrow> jsval option) \<Rightarrow> jsval option \<Rightarrow> string \<Rightarrow> jsval option" where
  "sse_line JSON_parse result line =
     (if startsWith line ''data: '' then
        (let data = drop 6 line in
         if trim data \<noteq> [] then
           (case JSON_parse data of
              None \<Rightarrow> result
            | Some parsed \<Rightarrow> if is_response parsed then Some parsed else result)
         else result)
      else result)"

definition parseSSEResponse :: "(string \<Rightarrow> jsval option) \<Rightarrow> string \<Rightarrow> jsval option" where
  "parseSSEResponse JSON_parse text = foldl (sse_line JSON_parse) None (str_split text (CHR 0x0A))"

section \<open>Credentials, HTTP and the process state\<close>

text \<open>The credential record (the token store's JSON object).\<close>

record tokens =
  server :: "string jsfield"
  url :: "string jsfield"
  client_id :: "string jsfield"
  access_token :: "string jsfield"
  refresh_token :: "string jsfield"
  token_type :: "string jsfield"
  expires_at :: "int jsfield"
  scope :: "string jsfield"

text \<open>The JSON object the token endpoint answers with (\<open>newTokens\<close>, \<open>result.tokens\<close>).\<close>

record token_response =
  tr_access_token :: "string jsfield"
  tr_refresh_token :: "string jsfield"
  tr_token_type :: "string jsfield"
  tr_expires_in :: "int jsfield"
  tr_scope :: "string jsfield"

definition no_tokens :: tokens where
  "no_tokens = \<lparr>server = Undefined, url = Undefined, client_id = Undefined, access_token = Undefined,
     refresh_token = Undefined, token_type = Undefined, expires_at = Undefined, scope = Undefined\<rparr>"

definition no_token_response :: token_response where
  "no_token_response = \<lparr>tr_access_token = Undefined, tr_refresh_token = Undefined,
     tr_token_type = Undefined, tr_expires_in = Undefined, tr_scope = Undefined\<rparr>"

text \<open>
  The platform's JSON functions, parameters of the model: \<open>JSON.parse\<close> at the three
  types it is read at (\<open>None\<close> where it throws) and \<open>JSON.stringify(tokens, null, 2)\<close>.
\<close>

record platform =
  JSON_parse :: "string \<Rightarrow> jsval option"
  parse_credentials :: "string \<Rightarrow> tokens jsres option"
  parse_token_response :: "string \<Rightarrow> token_response jsres option"
  parse_client :: "string \<Rightarrow> string jsfield jsres option"
  JSON_stringify :: "tokens \<Rightarrow> string"

datatype http_body = FormBody "(string \<times> string) list" | JsonBody jsval

record http_request =
  req_url :: string
  req_method :: string
  req_headers :: "(string \<times> string) list"
  req_body :: http_body

text \<open>
  A reply of the remote server: header names in lower case (\<open>headers.get\<close> ignores case),
  and the time that passed until it arrived.
\<close>

record http_response =
  status :: nat
  resp_headers :: "(string \<times> string) list"
  resp_body :: string
  latency :: nat

definition ok :: "http_response \<Rightarrow> bool" where
  "ok response = (200 \<le> status response \<and> status response \<le> 299)"

definition headers_get :: "http_response \<Rightarrow> string \<Rightarrow> string option" where
  "headers_get response name = map_of (resp_headers response) name"

datatype out = OutText "jsval option" | OutImage "jsval option" | OutJson "jsval option"

text \<open>
  The state a process runs in: the environment variable, the token store file (\<open>None\<close>
  when it does not exist), the module variables \<open>sessionId\<close> and \<open>messageId\<close>, the clock
  \<open>Date.now()\<close> reads, the replies the remote server is going to give (in order), the
  requests \<open>fetch\<close> was called with (in order), and both output streams (the messages
  shortened to their fixed part). The file system is this one file: \<open>HOME\<close> is set,
  reading the file gives its content, writing it replaces the content and does not fail.
  Time passes while a request is on its way.
\<close>

record world =
  CIRRA_OAUTH_CACHE :: "string option"
  token_file :: "string option"
  sessionId :: "string option"
  messageId :: nat
  now :: int
  net :: "http_response list"
  sent :: "http_request list"
  stderr :: "string list"
  stdout :: "out list"

definition MCP_BASE :: string where
  "MCP_BASE = ''https://mcp.cirra.ai''"

definition fetch :: "http_request \<Rightarrow> world \<Rightarrow> (error + http_response) \<times> world" where
  "fetch request w =
     (case net w of
        [] \<Rightarrow> (Inl NetworkError, w\<lparr>sent := sent w @ [request]\<rparr>)
      | response # rest \<Rightarrow>
          (Inr response,
           w\<lparr>sent := sent w @ [request], net := rest, now := now w + int (latency response)\<rparr>))"

definition console_error :: "string \<Rightarrow> world \<Rightarrow> world" where
  "console_error msg w = w\<lparr>stderr := stderr w @ [msg]\<rparr>"

definition console_log :: "out \<Rightarrow> world \<Rightarrow> world" where
  "console_log x w = w\<lparr>stdout := stdout w @ [x]\<rparr>"

section \<open>Tool Invoker: loading and refreshing the credentials\<close>

text \<open>\<open>process.env.CIRRA_OAUTH_CACHE\<close> as a condition: set and not empty.\<close>

definition env_cache :: "world \<Rightarrow> bool" where
  "env_cache w = (case CIRRA_OAUTH_CACHE w of None \<Rightarrow> False | Some blob \<Rightarrow> blob \<noteq> [])"

text \<open>The second half of \<open>loadTokens\<close>: the local file. \<open>null\<close> is \<open>NonObject JNull\<close>.\<close>

definition loadTokens_file :: "platform \<Rightarrow> world \<Rightarrow> tokens jsres \<times> world" where
  "loadTokens_file J w =
     (case token_file w of
        None \<Rightarrow> (NonObject JNull, w)
      | Some content \<Rightarrow>
          (case parse_credentials J content of
             Some v \<Rightarrow> (v, w)
           | None \<Rightarrow> (NonObject JNull, console_error ''Failed to read tokens file:'' w)))"

definition loadTokens :: "platform \<Rightarrow> world \<Rightarrow> tokens jsres \<times> world" where
  "loadTokens J w =
     (case CIRRA_OAUTH_CACHE w of
        None \<Rightarrow> loadTokens_file J w
      | Some blob \<Rightarrow>
          if blob \<noteq> [] then
            (case parse_credentials J blob of
               Some v \<Rightarrow> (v, w)
             | None \<Rightarrow> loadTokens_file J (console_error ''Failed to parse CIRRA_OAUTH_CACHE:'' w))
          else loadTokens_file J w)"

text \<open>\<open>!tokens\<close> in \<open>main\<close>, and the record whose properties the calls then read.\<close>

fun truthy_res :: "'a jsres \<Rightarrow> bool" where
  "truthy_res (NonObject v) = truthy v"
| "truthy_res (Object r) = True"

fun tokens_of :: "tokens jsres \<Rightarrow> tokens" where
  "tokens_of (Object t) = t"
| "tokens_of (NonObject v) = no_tokens"

text \<open>
  The object \<open>response.json()\<close> resolved to, as \<open>refreshTokens\<close> reads it: reading
  \<open>newTokens.access_token\<close> throws when it is \<open>null\<close>.
\<close>

fun token_response_of :: "token_response jsres \<Rightarrow> error + token_response" where
  "token_response_of (Object r) = Inr r"
| "token_response_of (NonObject JNull) = Inl TypeError"
| "token_response_of (NonObject v) = Inr no_token_response"

definition refresh_request :: "tokens \<Rightarrow> http_request" where
  "refresh_request tokens =
     \<lparr>req_url = MCP_BASE @ ''/token'', req_method = ''POST'',
      req_headers = [(''Content-Type'', ''application/x-www-form-urlencoded'')],
      req_body = FormBody [(''grant_type'', ''refresh_token''),
                           (''refresh_token'', str_of (refresh_token tokens)),
                           (''client_id'', str_of (client_id tokens))]\<rparr>"

text \<open>
  \<open>refreshTokens\<close>. The source updates the object it was given and returns it; the model
  returns the updated record, and the record it was given where the source throws (every
  \<open>throw\<close> comes before the first assignment).
\<close>

definition refreshTokens :: "platform \<Rightarrow> tokens \<Rightarrow> world \<Rightarrow> (error + tokens) \<times> world" where
  "refreshTokens J tokens w =
     (if \<not> truthy_str (refresh_token tokens) then (Inl NoRefreshToken, w)
      else
        (case fetch (refresh_request tokens) w of
           (Inl e, w1) \<Rightarrow> (Inl e, w1)
         | (Inr response, w1) \<Rightarrow>
             if \<not> ok response then (Inl (TokenRefreshError (status response)), w1)
             else
               (case parse_token_response J (resp_body response) of
                  None \<Rightarrow> (Inl SyntaxError, w1)
                | Some json \<Rightarrow>
                    (case token_response_of json of
                       Inl e \<Rightarrow> (Inl e, w1)
                     | Inr newTokens \<Rightarrow>
                         (let tokens1 = tokens\<lparr>access_token := tr_access_token newTokens\<rparr>;
                              tokens2 = (if truthy_str (tr_refresh_token newTokens)
                                         then tokens1\<lparr>refresh_token := tr_refresh_token newTokens\<rparr>
                                         else tokens1);
                              tokens3 = tokens2\<lparr>expires_at :=
                                          (case tr_expires_in newTokens of
                                             Val n \<Rightarrow> if n \<noteq> 0 then Val (now w1 + n * 1000) else Null
                                           | Undefined \<Rightarrow> Null
                                           | Null \<Rightarrow> Null)\<rparr>;
                              w2 = (if \<not> env_cache w1
                                    then w1\<lparr>token_file := Some (JSON_stringify J tokens3)\<rparr>
                                    else w1)
                          in (Inr tokens3, w2))))))"

section \<open>Tool Invoker: one MCP call\<close>

text \<open>The JSON-RPC request object and the headers of \<open>mcpCall\<close>.\<close>

definition rpc_request :: "nat \<Rightarrow> string \<Rightarrow> jsval \<Rightarrow> jsval" where
  "rpc_request n rpc_method params =
     JObj [(''jsonrpc'', JStr ''2.0''), (''id'', JNum (int n)),
           (''method'', JStr rpc_method), (''params'', params)]"

definition mcp_headers :: "tokens \<Rightarrow> bool \<Rightarrow> string option \<Rightarrow> (string \<times> string) list" where
  "mcp_headers tokens isInitialize sid =
     [(''Content-Type'', ''application/json''),
      (''Accept'', ''application/json, text/event-stream''),
      (''Authorization'', ''Bearer '' @ str_of (access_token tokens))]
     @ (case sid of
          None \<Rightarrow> []
        | Some s \<Rightarrow> if \<not> isInitialize \<and> s \<noteq> [] then [(''Mcp-Session-Id'', s)] else [])"

definition mcp_request :: "tokens \<Rightarrow> string \<Rightarrow> jsval \<Rightarrow> bool \<Rightarrow> world \<Rightarrow> http_request" where
  "mcp_request tokens rpc_method params isInitialize w =
     \<lparr>req_url = MCP_BASE @ ''/mcp'', req_method = ''POST'',
      req_headers = mcp_headers tokens isInitialize (sessionId w),
      req_body = JsonBody (rpc_request (messageId w) rpc_method params)\<rparr>"

text \<open>The session id of a response header, stored when it is there and not empty.\<close>

definition capture_session :: "http_response \<Rightarrow> world \<Rightarrow> world" where
  "capture_session response w =
     (case headers_get response ''mcp-session-id'' of
        None \<Rightarrow> w
      | Some newSessionId \<Rightarrow> if newSessionId \<noteq> [] then w\<lparr>sessionId := Some newSessionId\<rparr> else w)"

text \<open>The decoding of a response, from the status check on.\<close>

definition decode_response :: "platform \<Rightarrow> http_response \<Rightarrow> error + jsval" where
  "decode_response J response =
     (if \<not> ok response then Inl (TransportError (status response) (resp_body response))
      else
        (let contentType = (case headers_get response ''content-type'' of
                              None \<Rightarrow> [] | Some c \<Rightarrow> c)
         in if str_includes contentType ''text/event-stream'' then
              (case parseSSEResponse (JSON_parse J) (resp_body response) of
                 None \<Rightarrow> Inl EmptyStreamResponseError
               | Some result \<Rightarrow> if truthy result then Inr result else Inl EmptyStreamResponseError)
            else
              (case JSON_parse J (resp_body response) of
                 None \<Rightarrow> Inl SyntaxError
               | Some v \<Rightarrow> Inr v)))"

text \<open>
  \<open>mcpCall\<close> from the construction of the request on (the lines after the expiry check):
  the counter is incremented, the request sent, the session id captured, the response
  decoded.
\<close>

definition mcp_send ::
  "platform \<Rightarrow> tokens \<Rightarrow> string \<Rightarrow> jsval \<Rightarrow> bool \<Rightarrow> world \<Rightarrow> (error + jsval) \<times> tokens \<times> world" where
  "mcp_send J tokens rpc_method params isInitialize w =
     (let w1 = w\<lparr>messageId := messageId w + 1\<rparr> in
      case fetch (mcp_request tokens rpc_method params isInitialize w1) w1 of
        (Inl e, w2) \<Rightarrow> (Inl e, tokens, w2)
      | (Inr response, w2) \<Rightarrow> (decode_response J response, tokens, capture_session response w2))"

text \<open>
  \<open>mcpCall\<close>. It returns the result or the error, the credential record as the call left
  it (the caller's object, which a refresh has updated in place), and the state.
\<close>

definition mcpCall ::
  "platform \<Rightarrow> tokens \<Rightarrow> string \<Rightarrow> jsval \<Rightarrow> bool \<Rightarrow> world \<Rightarrow> (error + jsval) \<times> tokens \<times> world" where
  "mcpCall J tokens rpc_method params isInitialize w =
     (case (case expires_at tokens of
              Val e \<Rightarrow>
                if e \<noteq> 0 \<and> now w > e - 60000
                then refreshTokens J tokens (console_error ''Token expired, refreshing...'' w)
                else (Inr tokens, w)
            | Undefined \<Rightarrow> (Inr tokens, w)
            | Null \<Rightarrow> (Inr tokens, w)) of
        (Inl e, w1) \<Rightarrow> (Inl e, tokens, w1)
      | (Inr tokens1, w1) \<Rightarrow> mcp_send J tokens1 rpc_method params isInitialize w1)"

section \<open>Tool Invoker: the session and the command line\<close>

fun truthy_opt :: "jsval option \<Rightarrow> bool" where
  "truthy_opt None = False"
| "truthy_opt (Some v) = truthy v"

text \<open>\<open>v?.k\<close> on a value that may be \<open>undefined\<close>, and \<open>v.k\<close> on a truthy one.\<close>

fun js_get_opt :: "jsval option \<Rightarrow> string \<Rightarrow> jsval option" where
  "js_get_opt None k = None"
| "js_get_opt (Some v) k = (case js_get v k of Inl e \<Rightarrow> None | Inr x \<Rightarrow> x)"

definition initialize_params :: jsval where
  "initialize_params =
     JObj [(''protocolVersion'', JStr ''2024-11-05''),
           (''capabilities'', JObj [(''roots'', JObj [(''listChanged'', JBool False)]),
                                    (''sampling'', JObj [])]),
           (''clientInfo'', JObj [(''name'', JStr ''openclaw-mcp-client''),
                                  (''version'', JStr ''1.0.0'')])]"

definition initializeSession ::
  "platform \<Rightarrow> tokens \<Rightarrow> world \<Rightarrow> (error + jsval) \<times> tokens \<times> world" where
  "initializeSession J tokens w =
     (case mcpCall J tokens ''initialize'' initialize_params True w of
        (Inl e, tokens1, w1) \<Rightarrow> (Inl e, tokens1, w1)
      | (Inr result, tokens1, w1) \<Rightarrow>
          (case js_get result ''error'' of
             Inl e \<Rightarrow> (Inl e, tokens1, w1)
           | Inr err \<Rightarrow>
               if truthy_opt err
               then (Inl (SessionInitializationError (js_get_opt err ''message'')), tokens1, w1)
               else
                 (case mcpCall J tokens1 ''notifications/initialized'' (JObj []) False w1 of
                    (Inl e, tokens2, w2) \<Rightarrow> (Inl e, tokens2, w2)
                  | (Inr notified, tokens2, w2) \<Rightarrow> (Inr result, tokens2, w2))))"

definition callTool ::
  "platform \<Rightarrow> tokens \<Rightarrow> string \<Rightarrow> jsval \<Rightarrow> world \<Rightarrow> (error + jsval) \<times> tokens \<times> world" where
  "callTool J tokens toolName params w =
     mcpCall J tokens ''tools/call'' (JObj [(''name'', JStr toolName), (''arguments'', params)]) False w"

definition listTools :: "platform \<Rightarrow> tokens \<Rightarrow> world \<Rightarrow> (error + jsval) \<times> tokens \<times> world" where
  "listTools J tokens w = mcpCall J tokens ''tools/list'' (JObj []) False w"

text \<open>
  The command line after \<open>parseArgs\<close> (argument parsing is outside the specification's
  scope): no argument, \<open>--list\<close>, or a tool name with its parameters.
\<close>

datatype cli = NoArgs | ListFlag | ToolCall string jsval

text \<open>
  The loop that prints \<open>result.result.content\<close>. It throws at an item that is \<open>null\<close>,
  and at once when the content cannot be iterated; what was printed before stays printed.
\<close>

definition print_item :: "jsval \<Rightarrow> world \<Rightarrow> error option \<times> world" where
  "print_item item w =
     (case js_get item ''type'' of
        Inl e \<Rightarrow> (Some e, w)
      | Inr ty \<Rightarrow>
          if ty = Some (JStr ''text'')
          then (None, console_log (OutText (js_get_opt (Some item) ''text'')) w)
          else if ty = Some (JStr ''image'')
          then (None, console_log (OutImage (js_get_opt (Some item) ''mimeType'')) w)
          else (None, console_log (OutJson (Some item)) w))"

fun print_items :: "jsval list \<Rightarrow> world \<Rightarrow> error option \<times> world" where
  "print_items [] w = (None, w)"
| "print_items (item # items) w =
     (case print_item item w of
        (Some e, w1) \<Rightarrow> (Some e, w1)
      | (None, w1) \<Rightarrow> print_items items w1)"

definition print_content :: "jsval \<Rightarrow> world \<Rightarrow> error option \<times> world" where
  "print_content content w =
     (case content of
        JArr items \<Rightarrow> print_items items w
      | JStr s \<Rightarrow> print_items (map (\<lambda>c. JStr [c]) s) w
      | JNull \<Rightarrow> (Some TypeError, w)
      | JBool b \<Rightarrow> (Some TypeError, w)
      | JNum n \<Rightarrow> (Some TypeError, w)
      | JObj kvs \<Rightarrow> (Some TypeError, w))"

text \<open>
  The two \<open>try\<close> blocks at the end of \<open>main\<close>: \<open>--list\<close> prints \<open>result.result\<close>, a tool
  call prints the content items when \<open>result.result?.content\<close> is truthy. The value is
  the exit status (\<open>process.exit(1)\<close>, or 0 when \<open>main\<close> returns) and the final state.
\<close>

definition report :: "(error + jsval) \<times> tokens \<times> world \<Rightarrow> bool \<Rightarrow> nat \<times> world" where
  "report r formatted =
     (case r of
        (Inl e, tokens1, w1) \<Rightarrow> (1, console_error ''Error:'' w1)
      | (Inr result, tokens1, w1) \<Rightarrow>
          (case js_get result ''error'' of
             Inl e \<Rightarrow> (1, console_error ''Error:'' w1)
           | Inr err \<Rightarrow>
               if truthy_opt err then (1, console_error ''Error:'' w1)
               else
                 (let payload = js_get_opt (Some result) ''result'' in
                  case js_get_opt payload ''content'' of
                    None \<Rightarrow> (0, console_log (OutJson payload) w1)
                  | Some content \<Rightarrow>
                      if formatted \<and> truthy content then
                        (case print_content content w1 of
                           (Some e, w2) \<Rightarrow> (1, console_error ''Error:'' w2)
                         | (None, w2) \<Rightarrow> (0, w2))
                      else (0, console_log (OutJson payload) w1))))"

definition main_call_tool :: "platform \<Rightarrow> cli \<Rightarrow> world \<Rightarrow> nat \<times> world" where
  "main_call_tool J args w =
     (if args = NoArgs then (1, console_error ''Usage: node call-tool.js <tool_name> [--arg value ...]'' w)
      else
        (case loadTokens J w of
           (loaded, w1) \<Rightarrow>
             if \<not> truthy_res loaded then (1, console_error ''No OAuth tokens found.'' w1)
             else
               (case initializeSession J (tokens_of loaded) w1 of
                  (Inl e, tokens1, w2) \<Rightarrow> (1, console_error ''Failed to initialize MCP session:'' w2)
                | (Inr session, tokens1, w2) \<Rightarrow>
                    (case args of
                       ListFlag \<Rightarrow> report (listTools J tokens1 w2) False
                     | ToolCall toolName params \<Rightarrow> report (callTool J tokens1 toolName params w2) True
                     | NoArgs \<Rightarrow> (1, w2)))))"

section \<open>Authorizer\<close>

definition REDIRECT_URI :: string where
  "REDIRECT_URI = ''http://localhost:8976/callback''"

definition register_request :: http_request where
  "register_request =
     \<lparr>req_url = MCP_BASE @ ''/register'', req_method = ''POST'',
      req_headers = [(''Content-Type'', ''application/json'')],
      req_body = JsonBody (JObj
        [(''client_name'', JStr ''OpenClaw MCP Client''),
         (''redirect_uris'', JArr [JStr REDIRECT_URI]),
         (''grant_types'', JArr [JStr ''authorization_code'', JStr ''refresh_token'']),
         (''response_types'', JArr [JStr ''code'']),
         (''token_endpoint_auth_method'', JStr ''none'')])\<rparr>"

text \<open>\<open>registerClient\<close>: the registration reply, read at its \<open>client_id\<close>.\<close>

definition registerClient :: "platform \<Rightarrow> world \<Rightarrow> (error + string jsfield jsres) \<times> world" where
  "registerClient J w =
     (case fetch register_request w of
        (Inl e, w1) \<Rightarrow> (Inl e, w1)
      | (Inr response, w1) \<Rightarrow>
          if \<not> ok response
          then (Inl (ClientRegistrationError (status response) (resp_body response)), w1)
          else (case parse_client J (resp_body response) of
                  None \<Rightarrow> (Inl SyntaxError, w1)
                | Some client \<Rightarrow> (Inr client, w1)))"

fun client_id_of :: "string jsfield jsres \<Rightarrow> error + string jsfield" where
  "client_id_of (Object cid) = Inr cid"
| "client_id_of (NonObject JNull) = Inl TypeError"
| "client_id_of (NonObject v) = Inr Undefined"

text \<open>\<open>exchangeCode\<close>; \<open>code\<close> is what \<open>searchParams.get('code')\<close> gave (\<open>null\<close> is \<open>None\<close>).\<close>

definition exchange_request :: "string option \<Rightarrow> string jsfield \<Rightarrow> string \<Rightarrow> http_request" where
  "exchange_request code clientId codeVerifier =
     \<lparr>req_url = MCP_BASE @ ''/token'', req_method = ''POST'',
      req_headers = [(''Content-Type'', ''application/x-www-form-urlencoded'')],
      req_body = FormBody [(''grant_type'', ''authorization_code''),
                           (''code'', (case code of None \<Rightarrow> ''null'' | Some c \<Rightarrow> c)),
                           (''redirect_uri'', REDIRECT_URI),
                           (''client_id'', str_of clientId),
                           (''code_verifier'', codeVerifier)]\<rparr>"

definition exchangeCode ::
  "platform \<Rightarrow> string option \<Rightarrow> string jsfield \<Rightarrow> string \<Rightarrow> world
     \<Rightarrow> (error + token_response jsres) \<times> world" where
  "exchangeCode J code clientId codeVerifier w =
     (case fetch (exchange_request code clientId codeVerifier) w of
        (Inl e, w1) \<Rightarrow> (Inl e, w1)
      | (Inr response, w1) \<Rightarrow>
          if \<not> ok response
          then (Inl (TokenExchangeError (status response) (resp_body response)), w1)
          else (case parse_token_response J (resp_body response) of
                  None \<Rightarrow> (Inl SyntaxError, w1)
                | Some json \<Rightarrow> (Inr json, w1)))"

text \<open>
  A request to the local listener, after \<open>new URL(req.url, ...)\<close>: the path and the decoded
  query pairs; \<open>searchParams.get\<close> gives the first value of a name, or \<open>null\<close>.
\<close>

record callback_request =
  pathname :: string
  query :: "(string \<times> string) list"

definition searchParams_get :: "callback_request \<Rightarrow> string \<Rightarrow> string option" where
  "searchParams_get req name = map_of (query req) name"

datatype page =
    NotFoundPage                         \<comment> \<open>\<open>'Not found'\<close>\<close>
  | ErrorPage string "string option"     \<comment> \<open>\<open><h1>Error</h1><p>${error}: ${error_description}</p>\<close>\<close>
  | StateMismatchPage                    \<comment> \<open>\<open>State mismatch - possible CSRF attack\<close>\<close>
  | SuccessPage                          \<comment> \<open>\<open><h1>Success!</h1> ...\<close>\<close>
  | FailurePage error                    \<comment> \<open>\<open><h1>Error</h1><p>${err.message}</p>\<close>\<close>

text \<open>
  What the request handler of \<open>startCallbackServer\<close> did with one request: the status and
  page it answered with, whether it called \<open>server.close()\<close>, and how it settled the
  promise (\<open>None\<close>: it did not; \<open>Inl\<close>: \<open>reject\<close>; \<open>Inr\<close>: \<open>resolve({tokens, clientId})\<close>).
\<close>

record handled =
  writeHead :: nat
  page_sent :: page
  server_closed :: bool
  settled :: "(error + token_response jsres \<times> string jsfield) option"

definition handle_callback ::
  "platform \<Rightarrow> string \<Rightarrow> string \<Rightarrow> string jsfield \<Rightarrow> callback_request \<Rightarrow> world \<Rightarrow> handled \<times> world" where
  "handle_callback J csrf_state verifier clientId req w =
     (if pathname req \<noteq> ''/callback''
      then (\<lparr>writeHead = 404, page_sent = NotFoundPage, server_closed = False, settled = None\<rparr>, w)
      else
        (let code = searchParams_get req ''code'';
             returnedState = searchParams_get req ''state'';
             err = searchParams_get req ''error''
         in if (case err of None \<Rightarrow> False | Some e \<Rightarrow> e \<noteq> []) then
              (\<lparr>writeHead = 400,
                page_sent = ErrorPage (case err of None \<Rightarrow> [] | Some e \<Rightarrow> e)
                                      (searchParams_get req ''error_description''),
                server_closed = True,
                settled = Some (Inl (AuthorizationError (case err of None \<Rightarrow> [] | Some e \<Rightarrow> e)))\<rparr>, w)
            else if returnedState \<noteq> Some csrf_state then
              (\<lparr>writeHead = 400, page_sent = StateMismatchPage, server_closed = True,
                settled = Some (Inl CsrfError)\<rparr>, w)
            else
              (case exchangeCode J code clientId verifier w of
                 (Inr tokens, w1) \<Rightarrow>
                   (\<lparr>writeHead = 200, page_sent = SuccessPage, server_closed = True,
                     settled = Some (Inr (tokens, clientId))\<rparr>, w1)
               | (Inl e, w1) \<Rightarrow>
                   (\<lparr>writeHead = 500, page_sent = FailurePage e, server_closed = True,
                     settled = Some (Inl e)\<rparr>, w1))))"

text \<open>
  \<open>startCallbackServer\<close> over the requests that reach the listener before the five-minute
  timer fires: it answers them in turn until one settles the promise; when none does, the
  timer closes the server and rejects.
\<close>

fun startCallbackServer ::
  "platform \<Rightarrow> string \<Rightarrow> string \<Rightarrow> string jsfield \<Rightarrow> callback_request list \<Rightarrow> world
     \<Rightarrow> handled list \<times> (error + token_response jsres \<times> string jsfield) \<times> world" where
  "startCallbackServer J csrf_state verifier clientId [] w = ([], Inl AuthorizationTimeoutError, w)"
| "startCallbackServer J csrf_state verifier clientId (req # reqs) w =
     (case handle_callback J csrf_state verifier clientId req w of
        (h, w1) \<Rightarrow>
          (case settled h of
             Some r \<Rightarrow> ([h], r, w1)
           | None \<Rightarrow>
               (case startCallbackServer J csrf_state verifier clientId reqs w1 of
                  (hs, r, w2) \<Rightarrow> (h # hs, r, w2))))"

text \<open>The credential record \<open>main\<close> builds from the exchange's result (\<open>tokenData\<close>).\<close>

definition tokenData :: "int \<Rightarrow> string jsfield \<Rightarrow> token_response \<Rightarrow> tokens" where
  "tokenData date_now clientId result_tokens =
     \<lparr>server = Val ''cirra'', url = Val MCP_BASE, client_id = clientId,
      access_token = tr_access_token result_tokens,
      refresh_token = tr_refresh_token result_tokens,
      token_type = tr_token_type result_tokens,
      expires_at = (case tr_expires_in result_tokens of
                      Val n \<Rightarrow> if n \<noteq> 0 then Val (date_now + n * 1000) else Null
                    | Undefined \<Rightarrow> Null
                    | Null \<Rightarrow> Null),
      scope = tr_scope result_tokens\<rparr>"

text \<open>
  \<open>main\<close> of \<open>oauth-flow.js\<close>: the PKCE verifier and the CSRF state are the random values
  it generated, \<open>browser\<close> tells whether \<open>openBrowser\<close> returned, \<open>reqs\<close> are the requests
  that reach the listener. The value is the exit status and the final state.
\<close>

definition main_oauth_flow ::
  "platform \<Rightarrow> string \<Rightarrow> string \<Rightarrow> bool \<Rightarrow> callback_request list \<Rightarrow> world \<Rightarrow> nat \<times> world" where
  "main_oauth_flow J verifier csrf_state browser reqs w =
     (case registerClient J w of
        (Inl e, w1) \<Rightarrow> (1, console_error ''Failed to register client:'' w1)
      | (Inr client, w1) \<Rightarrow>
          (case client_id_of client of
             Inl e \<Rightarrow> (1, console_error ''Failed to register client:'' w1)
           | Inr clientId \<Rightarrow>
               if \<not> browser then (1, console_error ''Fatal error:'' w1)
               else
                 (case startCallbackServer J csrf_state verifier clientId reqs w1 of
                    (hs, Inl e, w2) \<Rightarrow> (1, console_error ''Authorization failed:'' w2)
                  | (hs, Inr (json, cid), w2) \<Rightarrow>
                      (case token_response_of json of
                         Inl e \<Rightarrow> (1, console_error ''Fatal error:'' w2)
                       | Inr result_tokens \<Rightarrow>
                           (0, w2\<lparr>token_file :=
                                   Some (JSON_stringify J (tokenData (now w2) cid result_tokens))\<rparr>)))))"

section \<open>Observations on a run\<close>

text \<open>The requests a step added to the log, and the two kinds of request among them.\<close>

definition new_requests :: "world \<Rightarrow> world \<Rightarrow> http_request list" where
  "new_requests w w' = drop (length (sent w)) (sent w')"

definition is_mcp :: "http_request \<Rightarrow> bool" where
  "is_mcp request = (req_url request = MCP_BASE @ ''/mcp'')"

definition is_token :: "http_request \<Rightarrow> bool" where
  "is_token request = (req_url request = MCP_BASE @ ''/token'')"

definition session_header :: "http_request \<Rightarrow> string option" where
  "session_header request = map_of (req_headers request) ''Mcp-Session-Id''"

text \<open>The \<open>id\<close> member of the JSON-RPC requests in a log.\<close>

fun rpc_ids :: "http_request list \<Rightarrow> jsval option list" where
  "rpc_ids [] = []"
| "rpc_ids (request # rest) =
     (case req_body request of
        JsonBody v \<Rightarrow> (if is_mcp request then [js_get_opt (Some v) ''id''] else []) @ rpc_ids rest
      | FormBody kvs \<Rightarrow> rpc_ids rest)"

text \<open>
  The expiry check of \<open>mcpCall\<close> as a condition of its own:
  \<open>tokens.expires_at && Date.now() > tokens.expires_at - 60000\<close>.
\<close>

definition expiring :: "tokens \<Rightarrow> world \<Rightarrow> bool" where
  "expiring tokens w =
     (case expires_at tokens of
        Val e \<Rightarrow> e \<noteq> 0 \<and> now w > e - 60000
      | Undefined \<Rightarrow> False
      | Null \<Rightarrow> False)"

text \<open>
  The numbering of the JSON-RPC requests in a state: the counter \<open>messageId\<close> is the number
  of MCP requests sent so far, and the k-th of them carries the id k.
\<close>

definition numbered :: "world \<Rightarrow> bool" where
  "numbered w =
     (messageId w = length (filter is_mcp (sent w))
      \<and> rpc_ids (sent w) = map (\<lambda>k. Some (JNum (int k))) [1..<Suc (messageId w)])"

text \<open>The environment variable and the token store file are the same in two states.\<close>

definition store_kept :: "world \<Rightarrow> world \<Rightarrow> bool" where
  "store_kept w w' = (CIRRA_OAUTH_CACHE w' = CIRRA_OAUTH_CACHE w \<and> token_file w' = token_file w)"

text \<open>Several calls of \<open>mcpCall\<close> in one process, one after the other, whatever each returns.\<close>

fun mcpCalls :: "platform \<Rightarrow> tokens \<Rightarrow> (string \<times> jsval \<times> bool) list \<Rightarrow> world \<Rightarrow> tokens \<times> world" where
  "mcpCalls J tokens [] w = (tokens, w)"
| "mcpCalls J tokens ((rpc_method, params, isInitialize) # calls) w =
     (case mcpCall J tokens rpc_method params isInitialize w of
        (r, tokens1, w1) \<Rightarrow> mcpCalls J tokens1 calls w1)"

text \<open>Where \<open>loadTokens\<close> took what it returned from.\<close>

datatype source = EnvironmentBlob | TokenStoreFile | NoSource

definition credential_source :: "platform \<Rightarrow> world \<Rightarrow> source" where
  "credential_source J w =
     (let from_file = (case token_file w of
                         None \<Rightarrow> NoSource
                       | Some content \<Rightarrow>
                           (case parse_credentials J content of
                              None \<Rightarrow> NoSource | Some v \<Rightarrow> TokenStoreFile))
      in case CIRRA_OAUTH_CACHE w of
           None \<Rightarrow> from_file
         | Some blob \<Rightarrow>
             if blob \<noteq> [] then
               (case parse_credentials J blob of None \<Rightarrow> from_file | Some v \<Rightarrow> EnvironmentBlob)
             else from_file)"

text \<open>
  The frames of an event stream in the specification's words: the lines that start with
  \<open>data: \<close>, their payloads parsed as JSON, those kept whose \<open>jsonrpc\<close> is \<open>"2.0"\<close> and
  whose \<open>id\<close> is defined.
\<close>

definition line_frames :: "(string \<Rightarrow> jsval option) \<Rightarrow> string \<Rightarrow> jsval list" where
  "line_frames parse line =
     (if startsWith line ''data: '' \<and> trim (drop 6 line) \<noteq> [] then
        (case parse (drop 6 line) of
           None \<Rightarrow> []
         | Some parsed \<Rightarrow> if is_response parsed then [parsed] else [])
      else [])"

definition sse_frames :: "(string \<Rightarrow> jsval option) \<Rightarrow> string \<Rightarrow> jsval list" where
  "sse_frames parse text = concat (map (line_frames parse) (str_split text (CHR 0x0A)))"

section \<open>Sample data\<close>

text \<open>
  A platform fixed on the few texts the examples below use (each entry is what
  \<open>JSON.parse\<close> or \<open>JSON.stringify\<close> gives there), and sample records, replies and states.
\<close>

definition frame_first :: string where
  \<open>frame_first = ''{"jsonrpc":"2.0","id":1,"result":"first"}''\<close>

definition frame_second :: string where
  \<open>frame_second = ''{"jsonrpc":"2.0","id":1,"result":"second"}''\<close>

definition frame_progress :: string where
  \<open>frame_progress = ''{"jsonrpc":"2.0","method":"notifications/progress"}''\<close>

definition value_first :: jsval where
  "value_first = JObj [(''jsonrpc'', JStr ''2.0''), (''id'', JNum 1), (''result'', JStr ''first'')]"

definition value_second :: jsval where
  "value_second = JObj [(''jsonrpc'', JStr ''2.0''), (''id'', JNum 1), (''result'', JStr ''second'')]"

definition value_progress :: jsval where
  "value_progress = JObj [(''jsonrpc'', JStr ''2.0''), (''method'', JStr ''notifications/progress'')]"

definition sample_parse :: "string \<Rightarrow> jsval option" where
  "sample_parse s =
     (if s = frame_first then Some value_first
      else if s = frame_second then Some value_second
      else if s = frame_progress then Some value_progress
      else if s = ''{}'' then Some (JObj [])
      else if s = ''null'' then Some JNull
      else None)"

text \<open>Event streams: two responses, one response after a notification, no response.\<close>

definition stream_two :: string where
  "stream_two = ''data: '' @ frame_first @ [CHR 0x0A] @ ''data: '' @ frame_second @ [CHR 0x0A, CHR 0x0A]"

definition stream_one :: string where
  "stream_one = ''event: message'' @ [CHR 0x0A] @ ''data: '' @ frame_progress @ [CHR 0x0A, CHR 0x0A]
     @ ''data: '' @ frame_first @ [CHR 0x0A, CHR 0x0A]"

definition stream_none :: string where
  "stream_none = ''data: '' @ frame_progress @ [CHR 0x0A] @ ''data: not json'' @ [CHR 0x0A]
     @ ''data: null''"

definition stored_text :: string where
  \<open>stored_text = ''{"client_id":"abc","access_token":"AT0","refresh_token":"RT0","expires_at":1000000}''\<close>

definition stored :: tokens where
  "stored = no_tokens\<lparr>client_id := Val ''abc'', access_token := Val ''AT0'',
                      refresh_token := Val ''RT0'', expires_at := Val 1000000\<rparr>"

definition sample_credentials :: "string \<Rightarrow> tokens jsres option" where
  "sample_credentials s =
     (if s = stored_text then Some (Object stored)
      else if s = ''null'' then Some (NonObject JNull)
      else None)"

definition grant_text :: string where
  \<open>grant_text = ''{"access_token":"AT1","refresh_token":"RT1","expires_in":3600}''\<close>

definition grant :: token_response where
  "grant = no_token_response\<lparr>tr_access_token := Val ''AT1'', tr_refresh_token := Val ''RT1'',
                              tr_expires_in := Val 3600\<rparr>"

definition grant_zero_text :: string where
  \<open>grant_zero_text = ''{"access_token":"AT2","expires_in":0}''\<close>

definition grant_zero :: token_response where
  "grant_zero = no_token_response\<lparr>tr_access_token := Val ''AT2'', tr_expires_in := Val 0\<rparr>"

definition sample_token_response :: "string \<Rightarrow> token_response jsres option" where
  "sample_token_response s =
     (if s = grant_text then Some (Object grant)
      else if s = grant_zero_text then Some (Object grant_zero)
      else None)"

definition registration_text :: string where
  \<open>registration_text = ''{"client_id":"abc"}''\<close>

definition sample_client :: "string \<Rightarrow> string jsfield jsres option" where
  "sample_client s = (if s = registration_text then Some (Object (Val ''abc'')) else None)"

text \<open>The record \<open>stored\<close> after a refresh answered with \<open>grant\<close> at time 1000005.\<close>

definition refreshed :: tokens where
  "refreshed = stored\<lparr>access_token := Val ''AT1'', refresh_token := Val ''RT1'',
                      expires_at := Val 4600005\<rparr>"

text \<open>The record \<open>main\<close> of the Authorizer builds from \<open>grant\<close> at time 1000010.\<close>

definition issued :: tokens where
  "issued = \<lparr>server = Val ''cirra'', url = Val ''https://mcp.cirra.ai'', client_id = Val ''abc'',
              access_token = Val ''AT1'', refresh_token = Val ''RT1'', token_type = Undefined,
              expires_at = Val 4600010, scope = Undefined\<rparr>"

text \<open>Both records as \<open>JSON.stringify(tokens, null, 2)\<close> prints them.\<close>

definition refreshed_text :: string where
  \<open>refreshed_text =
     ''{'' @ [CHR 0x0A] @
     ''  "client_id": "abc",'' @ [CHR 0x0A] @
     ''  "access_token": "AT1",'' @ [CHR 0x0A] @
     ''  "refresh_token": "RT1",'' @ [CHR 0x0A] @
     ''  "expires_at": 4600005'' @ [CHR 0x0A] @
     ''}''\<close>

definition issued_text :: string where
  \<open>issued_text =
     ''{'' @ [CHR 0x0A] @
     ''  "server": "cirra",'' @ [CHR 0x0A] @
     ''  "url": "https://mcp.cirra.ai",'' @ [CHR 0x0A] @
     ''  "client_id": "abc",'' @ [CHR 0x0A] @
     ''  "access_token": "AT1",'' @ [CHR 0x0A] @
     ''  "refresh_token": "RT1",'' @ [CHR 0x0A] @
     ''  "expires_at": 4600010'' @ [CHR 0x0A] @
     ''}''\<close>

definition sample_stringify :: "tokens \<Rightarrow> string" where
  "sample_stringify t =
     (if t = refreshed then refreshed_text
      else if t = issued then issued_text
      else [])"

definition sample :: platform where
  "sample = \<lparr>JSON_parse = sample_parse, parse_credentials = sample_credentials,
            parse_token_response = sample_token_response, parse_client = sample_client,
            JSON_stringify = sample_stringify\<rparr>"

text \<open>A record that is not about to expire at time 1000000, and a session of three calls.\<close>

definition valid :: tokens where
  "valid = stored\<lparr>expires_at := Val 9000000\<rparr>"

definition three_calls :: "(string \<times> jsval \<times> bool) list" where
  "three_calls = [(''initialize'', initialize_params, True),
                  (''notifications/initialized'', JObj [], False),
                  (''tools/list'', JObj [], False)]"

definition reply :: "nat \<Rightarrow> (string \<times> string) list \<Rightarrow> string \<Rightarrow> http_response" where
  "reply st hs b = \<lparr>status = st, resp_headers = hs, resp_body = b, latency = 5\<rparr>"

text \<open>A request to the \<open>/callback\<close> route with the given query pairs.\<close>

definition sample_callback :: "(string \<times> string) list \<Rightarrow> callback_request" where
  "sample_callback q = \<lparr>pathname = ''/callback'', query = q\<rparr>"

text \<open>A process that has just started, at time 1000000, with the replies to come.\<close>

definition fresh :: "string option \<Rightarrow> string option \<Rightarrow> http_response list \<Rightarrow> world" where
  "fresh env file replies =
     \<lparr>CIRRA_OAUTH_CACHE = env, token_file = file, sessionId = None, messageId = 0,
      now = 1000000, net = replies, sent = [], stderr = [], stdout = []\<rparr>"

section \<open>Properties\<close>

subsection \<open>What each operation changes\<close>

lemma fetch_effect:
  "fetch request w = (r, w') \<Longrightarrow>
     sent w' = sent w @ [request] \<and> messageId w' = messageId w \<and> sessionId w' = sessionId w
     \<and> token_file w' = token_file w \<and> CIRRA_OAUTH_CACHE w' = CIRRA_OAUTH_CACHE w
     \<and> stderr w' = stderr w \<and> stdout w' = stdout w"
  by (auto simp: fetch_def split: list.splits)

lemma refreshTokens_effect:
  "refreshTokens J tokens w = (r, w') \<Longrightarrow>
     sent w' = sent w @ (if truthy_str (refresh_token tokens) then [refresh_request tokens] else [])
     \<and> messageId w' = messageId w \<and> sessionId w' = sessionId w
     \<and> CIRRA_OAUTH_CACHE w' = CIRRA_OAUTH_CACHE w \<and> stderr w' = stderr w \<and> stdout w' = stdout w"
  unfolding refreshTokens_def
  by (auto simp: Let_def split: if_splits prod.splits sum.splits option.splits dest!: fetch_effect)

lemma mcp_send_effect:
  "mcp_send J tokens rpc_method params isInitialize w = (r, tokens', w') \<Longrightarrow>
     sent w' = sent w @ [mcp_request tokens rpc_method params isInitialize (w\<lparr>messageId := messageId w + 1\<rparr>)]
     \<and> messageId w' = messageId w + 1 \<and> tokens' = tokens
     \<and> token_file w' = token_file w \<and> CIRRA_OAUTH_CACHE w' = CIRRA_OAUTH_CACHE w
     \<and> stderr w' = stderr w \<and> stdout w' = stdout w"
  unfolding mcp_send_def capture_session_def
  by (auto simp: Let_def split: if_splits prod.splits sum.splits option.splits dest!: fetch_effect)

lemma rpc_ids_append: "rpc_ids (xs @ ys) = rpc_ids xs @ rpc_ids ys"
  by (induction xs) (auto split: http_body.splits)

lemma filter_is_mcp_refresh: "\<not> is_mcp (refresh_request tokens)"
  by (simp add: is_mcp_def refresh_request_def)

lemma is_mcp_request: "is_mcp (mcp_request tokens rpc_method params isInitialize w)"
  by (simp add: is_mcp_def mcp_request_def)

lemma rpc_ids_refresh: "rpc_ids [refresh_request tokens] = []"
  by (simp add: refresh_request_def)

lemma rpc_ids_mcp:
  "rpc_ids [mcp_request tokens rpc_method params isInitialize w] = [Some (JNum (int (messageId w)))]"
  by (simp add: mcp_request_def is_mcp_def rpc_request_def)


lemma numbered_refresh:
  assumes "numbered w" and "refreshTokens J tokens w = (r, w')"
  shows "numbered w'"
proof -
  from refreshTokens_effect [OF assms(2)]
  have "filter is_mcp (sent w') = filter is_mcp (sent w)" and "rpc_ids (sent w') = rpc_ids (sent w)"
    and "messageId w' = messageId w"
    using filter_is_mcp_refresh [of tokens] rpc_ids_refresh [of tokens]
    by (simp_all add: rpc_ids_append del: rpc_ids.simps(2))
  with assms(1) show ?thesis
    by (simp add: numbered_def)
qed

lemma numbered_console_error: "numbered (console_error msg w) = numbered w"
  by (simp add: numbered_def console_error_def)

lemma numbered_console_log: "numbered (console_log x w) = numbered w"
  by (simp add: numbered_def console_log_def)

lemma numbered_send:
  assumes "numbered w" and "mcp_send J tokens rpc_method params isInitialize w = (r, tokens', w')"
  shows "numbered w'"
proof -
  let ?w1 = "w\<lparr>messageId := messageId w + 1\<rparr>"
  let ?request = "mcp_request tokens rpc_method params isInitialize ?w1"
  from mcp_send_effect [OF assms(2)]
  have log: "sent w' = sent w @ [?request]" and count: "messageId w' = Suc (messageId w)"
    by simp_all
  from log have "length (filter is_mcp (sent w')) = Suc (length (filter is_mcp (sent w)))"
    by (simp add: is_mcp_request)
  moreover from log have "rpc_ids (sent w') = rpc_ids (sent w) @ [Some (JNum (int (Suc (messageId w))))]"
    using rpc_ids_mcp [of tokens rpc_method params isInitialize ?w1]
    by (simp add: rpc_ids_append del: rpc_ids.simps(2))
  ultimately show ?thesis
    using assms(1) count by (simp add: numbered_def)
qed

lemma numbered_mcpCall:
  assumes "numbered w" and "mcpCall J tokens rpc_method params isInitialize w = (r, tokens', w')"
  shows "numbered w'"
  using assms unfolding mcpCall_def
  by (auto split: jsfield.splits if_splits prod.splits sum.splits
        dest: numbered_send numbered_refresh [OF iffD2 [OF numbered_console_error]])

lemma numbered_mcpCalls:
  "numbered w \<Longrightarrow> mcpCalls J tokens calls w = (tokens', w') \<Longrightarrow> numbered w'"
proof (induction calls arbitrary: tokens w)
  case Nil
  then show ?case by simp
next
  case (Cons c calls)
  obtain m p i where c: "c = (m, p, i)" by (cases c)
  obtain r t1 w1 where step: "mcpCall J tokens m p i w = (r, t1, w1)" by (cases "mcpCall J tokens m p i w")
  with Cons.prems c have "mcpCalls J t1 calls w1 = (tokens', w')" by simp
  moreover from Cons.prems(1) step have "numbered w1" by (rule numbered_mcpCall)
  ultimately show ?case by (rule Cons.IH [rotated])
qed


lemma loadTokens_file_effect:
  "loadTokens_file J w = (v, w') \<Longrightarrow> sent w' = sent w \<and> messageId w' = messageId w \<and> net w' = net w
     \<and> token_file w' = token_file w \<and> CIRRA_OAUTH_CACHE w' = CIRRA_OAUTH_CACHE w \<and> sessionId w' = sessionId w \<and> now w' = now w"
  by (auto simp: loadTokens_file_def console_error_def split: option.splits)

lemma loadTokens_effect:
  "loadTokens J w = (v, w') \<Longrightarrow> sent w' = sent w \<and> messageId w' = messageId w \<and> net w' = net w
     \<and> token_file w' = token_file w \<and> CIRRA_OAUTH_CACHE w' = CIRRA_OAUTH_CACHE w \<and> sessionId w' = sessionId w \<and> now w' = now w"
  by (auto simp: loadTokens_def console_error_def split: option.splits if_splits dest!: loadTokens_file_effect)

lemma print_item_effect:
  "print_item item w = (e, w') \<Longrightarrow> sent w' = sent w \<and> messageId w' = messageId w"
  by (auto simp: print_item_def console_log_def split: sum.splits if_splits)

lemma print_items_effect:
  "print_items items w = (e, w') \<Longrightarrow> sent w' = sent w \<and> messageId w' = messageId w"
proof (induction items arbitrary: w)
  case Nil
  then show ?case by simp
next
  case (Cons item items)
  obtain e1 w1 where step: "print_item item w = (e1, w1)" by (cases "print_item item w")
  from print_item_effect [OF step] Cons step show ?case
    by (cases e1) auto
qed

lemma print_content_effect:
  "print_content content w = (e, w') \<Longrightarrow> sent w' = sent w \<and> messageId w' = messageId w"
  by (auto simp: print_content_def split: jsval.splits dest: print_items_effect)

lemma numbered_report:
  assumes "numbered w1" and "report (r, tokens1, w1) formatted = (exit_code, w')"
  shows "numbered w'"
proof -
  from assms(2) have "sent w' = sent w1 \<and> messageId w' = messageId w1"
    unfolding report_def
    by (auto simp: Let_def console_error_def console_log_def
          split: sum.splits if_splits option.splits prod.splits dest: print_content_effect)
  with assms(1) show ?thesis by (simp add: numbered_def)
qed

lemma numbered_initializeSession:
  assumes "numbered w" and "initializeSession J tokens w = (r, tokens', w')"
  shows "numbered w'"
  using assms unfolding initializeSession_def
  by (auto split: prod.splits sum.splits if_splits dest: numbered_mcpCall)

lemma numbered_main:
  assumes "numbered w" and "main_call_tool J args w = (exit_code, w')"
  shows "numbered w'"
proof (cases "args = NoArgs")
  case True
  with assms show ?thesis by (auto simp: main_call_tool_def numbered_console_error)
next
  case False
  obtain loaded w1 where load: "loadTokens J w = (loaded, w1)" by (cases "loadTokens J w")
  from loadTokens_effect [OF load] assms(1) have n1: "numbered w1" by (simp add: numbered_def)
  show ?thesis
  proof (cases "truthy_res loaded")
    case no: False
    with assms(2) False load n1 show ?thesis by (auto simp: main_call_tool_def numbered_console_error)
  next
    case yes: True
    obtain r t2 w2 where init: "initializeSession J (tokens_of loaded) w1 = (r, t2, w2)"
      by (cases "initializeSession J (tokens_of loaded) w1")
    from n1 init have n2: "numbered w2" by (rule numbered_initializeSession)
    show ?thesis
    proof (cases r)
      case (Inl e)
      with assms(2) False load yes init n2 show ?thesis
        by (auto simp: main_call_tool_def numbered_console_error)
    next
      case (Inr session)
      show ?thesis
      proof (cases args)
        case NoArgs
        with False show ?thesis by simp
      next
        case ListFlag
        obtain r3 t3 w3 where op: "listTools J t2 w2 = (r3, t3, w3)" by (cases "listTools J t2 w2")
        then have "numbered w3" using n2 by (auto simp: listTools_def dest: numbered_mcpCall)
        moreover from assms(2) load yes init Inr ListFlag op have "report (r3, t3, w3) False = (exit_code, w')"
          by (simp add: main_call_tool_def)
        ultimately show ?thesis by (rule numbered_report)
      next
        case (ToolCall toolName params)
        obtain r3 t3 w3 where op: "callTool J t2 toolName params w2 = (r3, t3, w3)"
          by (cases "callTool J t2 toolName params w2")
        then have "numbered w3" using n2 by (auto simp: callTool_def dest: numbered_mcpCall)
        moreover from assms(2) load yes init Inr ToolCall op have "report (r3, t3, w3) True = (exit_code, w')"
          by (simp add: main_call_tool_def)
        ultimately show ?thesis by (rule numbered_report)
      qed
    qed
  qed
qed

lemma numbered_start: "messageId w = 0 \<Longrightarrow> sent w = [] \<Longrightarrow> numbered w"
  by (simp add: numbered_def)

lemma new_requests_append: "sent w' = sent w @ xs \<Longrightarrow> new_requests w w' = xs"
  by (simp add: new_requests_def)

lemma is_token_refresh: "is_token (refresh_request tokens)"
  by (simp add: is_token_def refresh_request_def)

lemma not_token_mcp: "\<not> is_token (mcp_request tokens rpc_method params isInitialize w)"
  by (simp add: is_token_def mcp_request_def MCP_BASE_def)

lemma env_cache_cong: "CIRRA_OAUTH_CACHE w' = CIRRA_OAUTH_CACHE w \<Longrightarrow> env_cache w' = env_cache w"
  by (simp add: env_cache_def)

lemma refreshTokens_file:
  assumes "refreshTokens J tokens w = (r, w')"
  shows "token_file w' =
           (case r of
              Inl e \<Rightarrow> token_file w
            | Inr tokens' \<Rightarrow> if env_cache w then token_file w else Some (JSON_stringify J tokens'))"
  using assms unfolding refreshTokens_def
  by (auto simp: Let_def split: if_splits prod.splits sum.splits option.splits
        dest!: fetch_effect dest: env_cache_cong)

lemma store_kept_refl: "store_kept w w"
  by (simp add: store_kept_def)

lemma store_kept_trans: "store_kept w w1 \<Longrightarrow> store_kept w1 w2 \<Longrightarrow> store_kept w w2"
  by (simp add: store_kept_def)

lemma store_kept_console_error: "store_kept w (console_error msg w)"
  by (simp add: store_kept_def console_error_def)

lemma store_kept_console_log: "store_kept w (console_log x w)"
  by (simp add: store_kept_def console_log_def)

lemma store_kept_refresh:
  assumes "env_cache w" and "refreshTokens J tokens w = (r, w')"
  shows "store_kept w w'"
  using refreshTokens_file [OF assms(2)] refreshTokens_effect [OF assms(2)] assms(1)
  by (cases r) (simp_all add: store_kept_def)

lemma store_kept_send:
  "mcp_send J tokens rpc_method params isInitialize w = (r, tokens', w') \<Longrightarrow> store_kept w w'"
  by (drule mcp_send_effect) (simp add: store_kept_def)

lemma store_kept_env: "store_kept w w' \<Longrightarrow> env_cache w' = env_cache w"
  by (simp add: store_kept_def env_cache_def)

lemma store_kept_mcpCall:
  assumes "env_cache w" and "mcpCall J tokens rpc_method params isInitialize w = (r, tokens', w')"
  shows "store_kept w w'"
proof (cases "expiring tokens w")
  case False
  with assms(2) have "mcp_send J tokens rpc_method params isInitialize w = (r, tokens', w')"
    by (auto simp: mcpCall_def expiring_def split: jsfield.splits if_splits)
  then show ?thesis by (rule store_kept_send)
next
  case True
  let ?w0 = "console_error ''Token expired, refreshing...'' w"
  obtain r1 w1 where refresh: "refreshTokens J tokens ?w0 = (r1, w1)"
    by (cases "refreshTokens J tokens ?w0")
  have k0: "store_kept w ?w0" by (rule store_kept_console_error)
  with assms(1) have "env_cache ?w0" by (simp add: store_kept_env)
  then have "store_kept ?w0 w1" using refresh by (rule store_kept_refresh)
  with k0 have k1: "store_kept w w1" by (rule store_kept_trans)
  show ?thesis
  proof (cases r1)
    case (Inl e)
    with assms(2) True refresh have "w' = w1"
      by (auto simp: mcpCall_def expiring_def split: jsfield.splits if_splits)
    with k1 show ?thesis by simp
  next
    case (Inr tokens1)
    with assms(2) True refresh have "mcp_send J tokens1 rpc_method params isInitialize w1 = (r, tokens', w')"
      by (auto simp: mcpCall_def expiring_def split: jsfield.splits if_splits)
    then have "store_kept w1 w'" by (rule store_kept_send)
    with k1 show ?thesis by (rule store_kept_trans)
  qed
qed

lemma store_kept_initializeSession:
  assumes "env_cache w" and "initializeSession J tokens w = (r, tokens', w')"
  shows "store_kept w w'"
proof -
  obtain r1 t1 w1 where c1: "mcpCall J tokens ''initialize'' initialize_params True w = (r1, t1, w1)"
    by (cases "mcpCall J tokens ''initialize'' initialize_params True w")
  from assms(1) c1 have k1: "store_kept w w1" by (rule store_kept_mcpCall)
  with assms(1) have e1: "env_cache w1" by (simp add: store_kept_env)
  obtain r2 t2 w2 where c2: "mcpCall J t1 ''notifications/initialized'' (JObj []) False w1 = (r2, t2, w2)"
    by (cases "mcpCall J t1 ''notifications/initialized'' (JObj []) False w1")
  from e1 c2 have "store_kept w1 w2" by (rule store_kept_mcpCall)
  with k1 have k2: "store_kept w w2" by (rule store_kept_trans)
  from assms(2) c1 c2 have "w' = w1 \<or> w' = w2"
    by (auto simp: initializeSession_def split: sum.splits if_splits)
  with k1 k2 show ?thesis by auto
qed

lemma store_kept_print_item: "print_item item w = (e, w') \<Longrightarrow> store_kept w w'"
  by (auto simp: print_item_def console_log_def store_kept_def split: sum.splits if_splits)

lemma store_kept_print_items: "print_items items w = (e, w') \<Longrightarrow> store_kept w w'"
proof (induction items arbitrary: w)
  case Nil
  then show ?case by (simp add: store_kept_refl)
next
  case (Cons item items)
  obtain e1 w1 where step: "print_item item w = (e1, w1)" by (cases "print_item item w")
  from store_kept_print_item [OF step] Cons step show ?case
    by (cases e1) (auto intro: store_kept_trans)
qed

lemma store_kept_print_content: "print_content content w = (e, w') \<Longrightarrow> store_kept w w'"
  by (auto simp: print_content_def store_kept_refl split: jsval.splits dest: store_kept_print_items)

lemma store_kept_report:
  assumes "report (r, tokens1, w1) formatted = (exit_code, w')"
  shows "store_kept w1 w'"
  using assms unfolding report_def
  by (auto simp: Let_def store_kept_console_error store_kept_console_log
        split: sum.splits if_splits option.splits prod.splits
        dest!: store_kept_print_content intro: store_kept_trans [OF _ store_kept_console_error])


lemma store_kept_loadTokens: "loadTokens J w = (v, w') \<Longrightarrow> store_kept w w'"
  by (drule loadTokens_effect) (simp add: store_kept_def)

lemma store_kept_main:
  assumes "env_cache w" and "main_call_tool J args w = (exit_code, w')"
  shows "store_kept w w'"
proof (cases "args = NoArgs")
  case True
  with assms(2) show ?thesis by (auto simp: main_call_tool_def store_kept_console_error)
next
  case False
  obtain loaded w1 where load: "loadTokens J w = (loaded, w1)" by (cases "loadTokens J w")
  then have k1: "store_kept w w1" by (rule store_kept_loadTokens)
  with assms(1) have e1: "env_cache w1" by (simp add: store_kept_env)
  show ?thesis
  proof (cases "truthy_res loaded")
    case no: False
    with assms(2) False load have "w' = console_error ''No OAuth tokens found.'' w1"
      by (auto simp: main_call_tool_def)
    with k1 show ?thesis by (auto intro: store_kept_trans store_kept_console_error)
  next
    case yes: True
    obtain r t2 w2 where init: "initializeSession J (tokens_of loaded) w1 = (r, t2, w2)"
      by (cases "initializeSession J (tokens_of loaded) w1")
    from e1 init have "store_kept w1 w2" by (rule store_kept_initializeSession)
    with k1 have k2: "store_kept w w2" by (rule store_kept_trans)
    with assms(1) have e2: "env_cache w2" by (simp add: store_kept_env)
    show ?thesis
    proof (cases r)
      case (Inl e)
      with assms(2) False load yes init have "w' = console_error ''Failed to initialize MCP session:'' w2"
        by (auto simp: main_call_tool_def)
      with k2 show ?thesis by (auto intro: store_kept_trans store_kept_console_error)
    next
      case (Inr session)
      show ?thesis
      proof (cases args)
        case NoArgs
        with False show ?thesis by simp
      next
        case ListFlag
        obtain r3 t3 w3 where op: "listTools J t2 w2 = (r3, t3, w3)" by (cases "listTools J t2 w2")
        with e2 have "store_kept w2 w3" by (auto simp: listTools_def dest: store_kept_mcpCall)
        moreover from assms(2) load yes init Inr ListFlag op have "report (r3, t3, w3) False = (exit_code, w')"
          by (simp add: main_call_tool_def)
        then have "store_kept w3 w'" by (rule store_kept_report)
        ultimately show ?thesis using k2 by (blast intro: store_kept_trans)
      next
        case (ToolCall toolName params)
        obtain r3 t3 w3 where op: "callTool J t2 toolName params w2 = (r3, t3, w3)"
          by (cases "callTool J t2 toolName params w2")
        with e2 have "store_kept w2 w3" by (auto simp: callTool_def dest: store_kept_mcpCall)
        moreover from assms(2) load yes init Inr ToolCall op have "report (r3, t3, w3) True = (exit_code, w')"
          by (simp add: main_call_tool_def)
        then have "store_kept w3 w'" by (rule store_kept_report)
        ultimately show ?thesis using k2 by (blast intro: store_kept_trans)
      qed
    qed
  qed
qed

lemma source_env_cache: "credential_source J w = EnvironmentBlob \<Longrightarrow> env_cache w"
  by (auto simp: credential_source_def env_cache_def Let_def split: option.splits if_splits)

lemma loadTokens_source:
  "fst (loadTokens J w) =
     (case credential_source J w of
        EnvironmentBlob \<Rightarrow> (case CIRRA_OAUTH_CACHE w of None \<Rightarrow> NonObject JNull
           | Some blob \<Rightarrow> (case parse_credentials J blob of None \<Rightarrow> NonObject JNull | Some v \<Rightarrow> v))
      | TokenStoreFile \<Rightarrow> (case token_file w of None \<Rightarrow> NonObject JNull
           | Some content \<Rightarrow> (case parse_credentials J content of None \<Rightarrow> NonObject JNull | Some v \<Rightarrow> v))
      | NoSource \<Rightarrow> NonObject JNull)"
  by (auto simp: loadTokens_def loadTokens_file_def credential_source_def console_error_def Let_def
        split: option.splits)

lemma mcpCall_fresh_tokens:
  "\<not> expiring tokens w \<Longrightarrow>
     mcpCall J tokens rpc_method params isInitialize w = mcp_send J tokens rpc_method params isInitialize w"
  by (auto simp: mcpCall_def expiring_def split: jsfield.splits)

text \<open>The definitions a concrete run is evaluated with.\<close>

lemmas run_defs =
  mcpCall_def mcp_send_def refreshTokens_def refresh_request_def stored_def no_tokens_def
  fresh_def fetch_def reply_def capture_session_def headers_get_def mcp_request_def
  mcp_headers_def rpc_request_def is_mcp_def is_token_def decode_response_def ok_def
  sample_def sample_parse_def sample_token_response_def grant_def grant_text_def
  no_token_response_def console_error_def console_log_def env_cache_def MCP_BASE_def Let_def
  frame_first_def frame_second_def frame_progress_def value_first_def value_second_def
  value_progress_def stored_text_def grant_zero_text_def grant_zero_def

subsection \<open>Refresh without a refresh token\<close>

text \<open>
  C9. A refresh of a record whose \<open>refresh_token\<close> is absent, \<open>null\<close> or the empty string
  fails with the error of the message \<open>No refresh token available\<close> and leaves the whole
  state as it was: no request is sent, the token store file keeps its content, and the
  record (which the source would have updated in place) is not touched. When \<open>mcpCall\<close>
  is what started the refresh, it fails with the same error, hands the record back as it
  was, and has only written its notice to the error stream.
\<close>

theorem refresh_without_refresh_token:
  assumes "refresh_token tokens = Undefined \<or> refresh_token tokens = Null
             \<or> refresh_token tokens = Val []"
  shows "refreshTokens J tokens w = (Inl NoRefreshToken, w)
         \<and> (expiring tokens w \<longrightarrow>
              mcpCall J tokens rpc_method params isInitialize w
                = (Inl NoRefreshToken, tokens, console_error ''Token expired, refreshing...'' w))"
proof -
  from assms have falsy: "\<not> truthy_str (refresh_token tokens)"
    by auto
  then have stop: "refreshTokens J tokens v = (Inl NoRefreshToken, v)" for v
    by (simp add: refreshTokens_def)
  have "mcpCall J tokens rpc_method params isInitialize w
          = (Inl NoRefreshToken, tokens, console_error ''Token expired, refreshing...'' w)"
    if "expiring tokens w"
    using that stop by (auto simp: mcpCall_def expiring_def split: jsfield.splits)
  with stop show ?thesis
    by blast
qed

theorem refresh_without_refresh_token_witness:
  "refreshTokens sample (stored\<lparr>refresh_token := Val []\<rparr>) (fresh None (Some stored_text) [])
     = (Inl NoRefreshToken, fresh None (Some stored_text) [])
   \<and> expiring (stored\<lparr>refresh_token := Val []\<rparr>) (fresh None (Some stored_text) [])
   \<and> mcpCall sample (stored\<lparr>refresh_token := Val []\<rparr>) ''tools/list'' (JObj []) False
        (fresh None (Some stored_text) [])
     = (Inl NoRefreshToken, stored\<lparr>refresh_token := Val []\<rparr>,
        console_error ''Token expired, refreshing...'' (fresh None (Some stored_text) []))"
proof -
  have falsy: "refresh_token (stored\<lparr>refresh_token := Val []\<rparr>) = Undefined
                 \<or> refresh_token (stored\<lparr>refresh_token := Val []\<rparr>) = Null
                 \<or> refresh_token (stored\<lparr>refresh_token := Val []\<rparr>) = Val []"
    by simp
  have due: "expiring (stored\<lparr>refresh_token := Val []\<rparr>) (fresh None (Some stored_text) [])"
    by (simp add: expiring_def stored_def no_tokens_def fresh_def)
  from refresh_without_refresh_token [OF falsy, of sample "fresh None (Some stored_text) []"
      "''tools/list''" "JObj []" False] due
  show ?thesis
    by simp
qed

subsection \<open>Request ids\<close>

text \<open>
  C8. In a process that starts with the counter at 0 and nothing sent, the JSON-RPC ids
  of the MCP requests are 1, 2, 3, ... in the order the requests are sent: the k-th
  request carries the id k. This holds after any sequence of calls of \<open>mcpCall\<close>
  (whatever each of them returns) and after a run of \<open>main\<close>; token refreshes in between
  do not consume an id.
\<close>

theorem request_ids_count_from_one:
  assumes "messageId w = 0" and "sent w = []"
  shows "rpc_ids (sent (snd (mcpCalls J tokens calls w)))
           = map (\<lambda>k. Some (JNum (int k))) [1..<Suc (length (filter is_mcp (sent (snd (mcpCalls J tokens calls w)))))]
         \<and> rpc_ids (sent (snd (main_call_tool J args w)))
           = map (\<lambda>k. Some (JNum (int k))) [1..<Suc (length (filter is_mcp (sent (snd (main_call_tool J args w)))))]"
proof -
  from assms have start: "numbered w" by (rule numbered_start)
  have "numbered (snd (mcpCalls J tokens calls w))"
    using numbered_mcpCalls [OF start] by (cases "mcpCalls J tokens calls w") auto
  moreover have "numbered (snd (main_call_tool J args w))"
    using numbered_main [OF start] by (cases "main_call_tool J args w") auto
  ultimately show ?thesis
    by (simp add: numbered_def)
qed


theorem request_ids_count_from_one_witness:
  "rpc_ids (sent (snd (mcpCalls sample valid three_calls
      (fresh None (Some stored_text) [reply 200 [] ''{}'', reply 200 [] ''{}'']))))
     = [Some (JNum 1), Some (JNum 2), Some (JNum 3)]
   \<and> rpc_ids (sent (snd (main_call_tool sample ListFlag
      (fresh None (Some stored_text)
         [reply 200 [] grant_text, reply 200 [] ''{}'', reply 200 [] ''{}'', reply 200 [] ''{}'']))))
     = [Some (JNum 1), Some (JNum 2), Some (JNum 3)]"
proof -
  let ?w1 = "fresh None (Some stored_text) [reply 200 [] ''{}'', reply 200 [] ''{}'']"
  let ?w2 = "fresh None (Some stored_text)
               [reply 200 [] grant_text, reply 200 [] ''{}'', reply 200 [] ''{}'', reply 200 [] ''{}'']"
  have "length (filter is_mcp (sent (snd (mcpCalls sample valid three_calls ?w1)))) = 3"
    by (simp add: three_calls_def valid_def run_defs)
  moreover have "length (filter is_mcp (sent (snd (main_call_tool sample ListFlag ?w2)))) = 3"
    by (simp add: main_call_tool_def loadTokens_def loadTokens_file_def sample_credentials_def
          initializeSession_def listTools_def report_def run_defs)
  moreover have "messageId ?w1 = 0" "sent ?w1 = []" "messageId ?w2 = 0" "sent ?w2 = []"
    by (simp_all add: fresh_def)
  ultimately show ?thesis
    using request_ids_count_from_one [of ?w1 sample valid three_calls ListFlag]
      request_ids_count_from_one [of ?w2 sample valid three_calls ListFlag]
    by (simp add: upt_conv_Cons)
qed

subsection \<open>The expiry check before a call\<close>

text \<open>
  C1 (as the code has it). \<open>mcpCall\<close> starts a refresh exactly when \<open>expiring\<close> holds:
  \<open>expires_at\<close> is a number other than 0 and the clock is strictly later than
  \<open>expires_at - 60000\<close>, that is, fewer than 60 seconds remain. It then writes its notice
  to the error stream, and when the record has a refresh token exactly one request goes
  to the token endpoint, before the MCP request (which follows only when the refresh
  succeeded). Otherwise no request goes to the token endpoint and exactly one MCP request
  is sent. A call never sends more than one MCP request.
\<close>

theorem refresh_before_call:
  assumes "mcpCall J tokens rpc_method params isInitialize w = (r, tokens', w')"
  shows "stderr w' = stderr w @ (if expiring tokens w then [''Token expired, refreshing...''] else [])
         \<and> filter is_token (new_requests w w')
             = (if expiring tokens w \<and> truthy_str (refresh_token tokens)
                then [refresh_request tokens] else [])
         \<and> new_requests w w' = filter is_token (new_requests w w') @ filter is_mcp (new_requests w w')
         \<and> length (filter is_mcp (new_requests w w')) \<le> 1
         \<and> (\<not> expiring tokens w \<longrightarrow> length (filter is_mcp (new_requests w w')) = 1)"
proof (cases "expiring tokens w")
  case False
  with assms have "mcp_send J tokens rpc_method params isInitialize w = (r, tokens', w')"
    by (auto simp: mcpCall_def expiring_def split: jsfield.splits if_splits)
  from mcp_send_effect [OF this] False show ?thesis
    by (simp add: new_requests_append is_mcp_request not_token_mcp)
next
  case True
  let ?w0 = "console_error ''Token expired, refreshing...'' w"
  obtain r1 w1 where refresh: "refreshTokens J tokens ?w0 = (r1, w1)"
    by (cases "refreshTokens J tokens ?w0")
  note e1 = refreshTokens_effect [OF refresh]
  show ?thesis
  proof (cases r1)
    case (Inl e)
    with assms True refresh have "w' = w1"
      by (auto simp: mcpCall_def expiring_def split: jsfield.splits if_splits)
    with e1 True show ?thesis
      by (simp add: new_requests_def console_error_def is_token_refresh filter_is_mcp_refresh)
  next
    case (Inr tokens1)
    with assms True refresh have "mcp_send J tokens1 rpc_method params isInitialize w1 = (r, tokens', w')"
      by (auto simp: mcpCall_def expiring_def split: jsfield.splits if_splits)
    from mcp_send_effect [OF this] e1 True show ?thesis
      by (simp add: new_requests_def console_error_def is_token_refresh filter_is_mcp_refresh
            is_mcp_request not_token_mcp)
  qed
qed


theorem refresh_before_call_witness:
  "expiring stored (fresh None (Some stored_text) [reply 200 [] grant_text, reply 200 [] ''{}''])
   \<and> new_requests (fresh None (Some stored_text) [reply 200 [] grant_text, reply 200 [] ''{}''])
        (snd (snd (mcpCall sample stored ''tools/list'' (JObj []) False
           (fresh None (Some stored_text) [reply 200 [] grant_text, reply 200 [] ''{}'']))))
      = [refresh_request stored,
         mcp_request refreshed ''tools/list'' (JObj []) False
           ((fresh None (Some stored_text) [])\<lparr>messageId := 1\<rparr>)]
   \<and> stderr (snd (snd (mcpCall sample stored ''tools/list'' (JObj []) False
           (fresh None (Some stored_text) [reply 200 [] grant_text, reply 200 [] ''{}'']))))
      = [''Token expired, refreshing...'']"
proof -
  let ?w = "fresh None (Some stored_text) [reply 200 [] grant_text, reply 200 [] ''{}'']"
  obtain r t' w' where run: "mcpCall sample stored ''tools/list'' (JObj []) False ?w = (r, t', w')"
    by (cases "mcpCall sample stored ''tools/list'' (JObj []) False ?w")
  have due: "expiring stored ?w"
    by (simp add: expiring_def stored_def no_tokens_def fresh_def)
  have log: "new_requests ?w (snd (snd (mcpCall sample stored ''tools/list'' (JObj []) False ?w)))
      = [refresh_request stored,
         mcp_request refreshed ''tools/list'' (JObj []) False
           ((fresh None (Some stored_text) [])\<lparr>messageId := 1\<rparr>)]"
    by (simp add: new_requests_def refreshed_def run_defs)
  from refresh_before_call [OF run] due run log show ?thesis
    by (simp add: fresh_def)
qed

text \<open>
  With \<open>expires_at\<close> exactly 60 seconds away the call is sent without a refresh; so it
  is with \<open>expires_at = 0\<close>, which is not \<open>null\<close> and long past.
\<close>

theorem no_refresh_at_sixty_seconds:
  "expires_at (stored\<lparr>expires_at := Val 1060000\<rparr>) = Val (now (fresh None None [reply 200 [] ''{}'']) + 60000)
   \<and> new_requests (fresh None None [reply 200 [] ''{}''])
        (snd (snd (mcpCall sample (stored\<lparr>expires_at := Val 1060000\<rparr>) ''tools/list'' (JObj []) False
           (fresh None None [reply 200 [] ''{}'']))))
      = [mcp_request (stored\<lparr>expires_at := Val 1060000\<rparr>) ''tools/list'' (JObj []) False
           ((fresh None None [])\<lparr>messageId := 1\<rparr>)]
   \<and> expires_at (stored\<lparr>expires_at := Val 0\<rparr>) \<noteq> Null
   \<and> new_requests (fresh None None [reply 200 [] ''{}''])
        (snd (snd (mcpCall sample (stored\<lparr>expires_at := Val 0\<rparr>) ''tools/list'' (JObj []) False
           (fresh None None [reply 200 [] ''{}'']))))
      = [mcp_request (stored\<lparr>expires_at := Val 0\<rparr>) ''tools/list'' (JObj []) False
           ((fresh None None [])\<lparr>messageId := 1\<rparr>)]"
  by (simp add: new_requests_def run_defs)


subsection \<open>Writing the refreshed record back\<close>

text \<open>
  C2 (as the code has it). A successful refresh overwrites the token store file with the
  serialised updated record exactly when \<open>CIRRA_OAUTH_CACHE\<close> is unset or empty, and
  leaves the file as it was when the variable holds any text. In particular, when
  \<open>loadTokens\<close> took the credentials from the environment blob, neither a refresh nor a
  whole run of \<open>main\<close> changes the file.
\<close>

theorem write_back_follows_environment:
  "(refreshTokens J tokens w = (Inr tokens', w') \<longrightarrow>
      token_file w' = (if env_cache w then token_file w else Some (JSON_stringify J tokens')))
   \<and> (credential_source J w = EnvironmentBlob \<longrightarrow>
        token_file (snd (refreshTokens J tokens w)) = token_file w
        \<and> token_file (snd (main_call_tool J args w)) = token_file w)"
proof -
  have "token_file w' = (if env_cache w then token_file w else Some (JSON_stringify J tokens'))"
    if "refreshTokens J tokens w = (Inr tokens', w')"
    using refreshTokens_file [OF that] by simp
  moreover have "token_file (snd (refreshTokens J tokens w)) = token_file w"
    if "credential_source J w = EnvironmentBlob"
    using store_kept_refresh [OF source_env_cache [OF that], of J tokens]
    by (cases "refreshTokens J tokens w") (simp add: store_kept_def)
  moreover have "token_file (snd (main_call_tool J args w)) = token_file w"
    if "credential_source J w = EnvironmentBlob"
    using store_kept_main [OF source_env_cache [OF that], of J args]
    by (cases "main_call_tool J args w") (simp add: store_kept_def)
  ultimately show ?thesis
    by blast
qed

theorem write_back_follows_environment_witness:
  "refreshTokens sample stored (fresh None (Some stored_text) [reply 200 [] grant_text])
     = (Inr refreshed, (fresh None (Some refreshed_text) [])\<lparr>now := 1000005, sent := [refresh_request stored]\<rparr>)
   \<and> credential_source sample (fresh (Some stored_text) (Some stored_text) [reply 200 [] grant_text]) = EnvironmentBlob
   \<and> token_file (snd (refreshTokens sample stored (fresh (Some stored_text) (Some stored_text) [reply 200 [] grant_text])))
       = Some stored_text
   \<and> token_file (snd (main_call_tool sample ListFlag (fresh (Some stored_text) (Some stored_text) [reply 200 [] grant_text])))
       = Some stored_text"
proof -
  let ?w = "fresh None (Some stored_text) [reply 200 [] grant_text]"
  let ?v = "fresh (Some stored_text) (Some stored_text) [reply 200 [] grant_text]"
  have run: "refreshTokens sample stored ?w
     = (Inr refreshed, (fresh None (Some refreshed_text) [])\<lparr>now := 1000005, sent := [refresh_request stored]\<rparr>)"
    by (simp add: refreshed_def sample_stringify_def run_defs)
  have src: "credential_source sample ?v = EnvironmentBlob"
    by (simp add: credential_source_def sample_credentials_def run_defs)
  have "\<not> env_cache ?w" and "token_file ?v = Some stored_text"
    by (simp_all add: env_cache_def fresh_def)
  with run src write_back_follows_environment [of sample stored ?w refreshed
      "(fresh None (Some refreshed_text) [])\<lparr>now := 1000005, sent := [refresh_request stored]\<rparr>" ListFlag]
    write_back_follows_environment [of sample stored ?v refreshed ?v ListFlag]
  show ?thesis
    by simp
qed

text \<open>
  The variable holds a text that is no JSON, so the credentials come from the file; the
  refresh succeeds and the file still holds the old record.
\<close>

theorem no_write_back_although_file_was_the_source:
  "credential_source sample (fresh (Some ''not json'') (Some stored_text) [reply 200 [] grant_text]) = TokenStoreFile
   \<and> fst (loadTokens sample (fresh (Some ''not json'') (Some stored_text) [reply 200 [] grant_text])) = Object stored
   \<and> fst (refreshTokens sample stored (fresh (Some ''not json'') (Some stored_text) [reply 200 [] grant_text]))
       = Inr refreshed
   \<and> token_file (snd (refreshTokens sample stored (fresh (Some ''not json'') (Some stored_text) [reply 200 [] grant_text])))
       = Some stored_text
   \<and> Some stored_text \<noteq> Some (JSON_stringify sample refreshed)"
  by (simp add: credential_source_def loadTokens_def loadTokens_file_def sample_credentials_def
        refreshed_def sample_stringify_def refreshed_text_def run_defs)

subsection \<open>Decoding an event stream\<close>

text \<open>
  The loop of \<open>parseSSEResponse\<close> keeps the last line that qualifies: its result is the
  last of the frames, \<open>null\<close> when there is none. A frame that qualifies is an object,
  so the test \<open>if (result)\<close> of \<open>mcpCall\<close> succeeds on it.
\<close>

lemma is_response_truthy: "is_response v \<Longrightarrow> truthy v"
  by (cases v) (simp_all add: is_response_def)

lemma sse_line_frames:
  "sse_line parse acc line =
     (case line_frames parse line of [] \<Rightarrow> acc | f # fs \<Rightarrow> Some (last (f # fs)))"
  by (simp add: sse_line_def line_frames_def Let_def split: option.splits)

lemma last_frame_step:
  "(case rest of
      [] \<Rightarrow> (case here of [] \<Rightarrow> acc | f # fs \<Rightarrow> Some (last (f # fs)))
    | f # fs \<Rightarrow> Some (last (f # fs)))
   = (case here @ rest of [] \<Rightarrow> acc | f # fs \<Rightarrow> Some (last (f # fs)))"
  by (cases here; cases rest) simp_all

lemma sse_fold:
  "foldl (sse_line parse) acc lines =
     (case concat (map (line_frames parse) lines) of
        [] \<Rightarrow> acc
      | f # fs \<Rightarrow> Some (last (f # fs)))"
proof (induction lines arbitrary: acc)
  case Nil
  then show ?case by simp
next
  case (Cons line lines)
  have "foldl (sse_line parse) acc (line # lines)
          = (case concat (map (line_frames parse) lines) of
               [] \<Rightarrow> sse_line parse acc line
             | f # fs \<Rightarrow> Some (last (f # fs)))"
    unfolding foldl_Cons by (rule Cons.IH)
  also have "\<dots> = (case concat (map (line_frames parse) (line # lines)) of
                      [] \<Rightarrow> acc
                    | f # fs \<Rightarrow> Some (last (f # fs)))"
    unfolding sse_line_frames list.map concat.simps by (rule last_frame_step)
  finally show ?case .
qed

lemma parseSSEResponse_last:
  "parseSSEResponse parse text =
     (case sse_frames parse text of [] \<Rightarrow> None | f # fs \<Rightarrow> Some (last (f # fs)))"
  unfolding parseSSEResponse_def sse_frames_def by (rule sse_fold)

lemma sse_frames_response: "v \<in> set (sse_frames parse text) \<Longrightarrow> is_response v"
  by (auto simp: sse_frames_def line_frames_def split: if_splits option.splits)

lemma decode_event_stream:
  assumes "ok response" and "headers_get response ''content-type'' = Some c"
    and "str_includes c ''text/event-stream''"
  shows "decode_response J response =
           (case sse_frames (JSON_parse J) (resp_body response) of
              [] \<Rightarrow> Inl EmptyStreamResponseError
            | f # fs \<Rightarrow> Inr (last (f # fs)))"
proof (cases "sse_frames (JSON_parse J) (resp_body response)")
  case Nil
  with assms show ?thesis
    by (simp add: decode_response_def parseSSEResponse_last)
next
  case (Cons f fs)
  then have "last (f # fs) \<in> set (sse_frames (JSON_parse J) (resp_body response))"
    by (metis last_in_set list.distinct(1))
  then have "truthy (last (f # fs))"
    by (blast intro: is_response_truthy sse_frames_response)
  with assms Cons show ?thesis
    by (simp add: decode_response_def parseSSEResponse_last del: last.simps)
qed

lemma mcp_send_result:
  "net w = response # rest \<Longrightarrow>
     fst (mcp_send J tokens rpc_method params isInitialize w) = decode_response J response"
  by (simp add: mcp_send_def fetch_def Let_def)

text \<open>The sample streams, line by line.\<close>

lemma split_two:
  "str_split stream_two (CHR 0x0A) = [''data: '' @ frame_first, ''data: '' @ frame_second, [], []]"
  by (simp add: stream_two_def frame_first_def frame_second_def)

lemma split_one:
  "str_split stream_one (CHR 0x0A)
     = [''event: message'', ''data: '' @ frame_progress, [], ''data: '' @ frame_first, [], []]"
  by (simp add: stream_one_def frame_first_def frame_progress_def)

lemma split_none:
  "str_split stream_none (CHR 0x0A) = [''data: '' @ frame_progress, ''data: not json'', ''data: null'']"
  by (simp add: stream_none_def frame_progress_def)

lemmas line_defs =
  line_frames_def startsWith_def trim_def white_space_def is_response_def sample_parse_def
  frame_first_def frame_second_def frame_progress_def value_first_def value_second_def
  value_progress_def

lemma line_first: "line_frames sample_parse (''data: '' @ frame_first) = [value_first]"
  by (simp add: line_defs)

lemma line_second: "line_frames sample_parse (''data: '' @ frame_second) = [value_second]"
  by (simp add: line_defs)

lemma line_progress: "line_frames sample_parse (''data: '' @ frame_progress) = []"
  by (simp add: line_defs)

lemma line_other:
  "line_frames sample_parse [] = []"
  "line_frames sample_parse ''event: message'' = []"
  "line_frames sample_parse ''data: not json'' = []"
  "line_frames sample_parse ''data: null'' = []"
  by (simp_all add: line_defs)

lemma frames_two: "sse_frames sample_parse stream_two = [value_first, value_second]"
  by (simp add: sse_frames_def split_two line_first [simplified] line_second [simplified] line_other)

lemma frames_one: "sse_frames sample_parse stream_one = [value_first]"
  by (simp add: sse_frames_def split_one line_first [simplified] line_progress [simplified] line_other)

lemma frames_none: "sse_frames sample_parse stream_none = []"
  by (simp add: sse_frames_def split_none line_progress [simplified] line_other)


text \<open>
  C3 (as the code has it). When a response with a 2xx status declares a content type that
  contains \<open>text/event-stream\<close>, its body is split at newlines, the payload of every
  \<open>data: \<close> line is parsed as JSON, and the last frame whose \<open>jsonrpc\<close> is \<open>"2.0"\<close> and
  whose \<open>id\<close> is defined is the result of the call (the only one, when one frame
  qualifies); when no frame qualifies the call fails with \<open>EmptyStreamResponseError\<close>.
  This is the value of \<open>mcpCall\<close> whenever that response answers its request.
\<close>

theorem event_stream_last_frame:
  assumes "ok response" and "headers_get response ''content-type'' = Some c"
    and "str_includes c ''text/event-stream''"
  shows "decode_response J response =
           (case sse_frames (JSON_parse J) (resp_body response) of
              [] \<Rightarrow> Inl EmptyStreamResponseError
            | f # fs \<Rightarrow> Inr (last (f # fs)))
         \<and> (\<not> expiring tokens w \<and> net w = response # rest \<longrightarrow>
              fst (mcpCall J tokens rpc_method params isInitialize w) = decode_response J response)"
  using decode_event_stream [OF assms] mcp_send_result [of w response rest]
  by (simp add: mcpCall_fresh_tokens)

theorem event_stream_last_frame_witness:
  "decode_response sample (reply 200 [(''content-type'', ''text/event-stream'')] stream_one) = Inr value_first
   \<and> decode_response sample (reply 200 [(''content-type'', ''text/event-stream; charset=utf-8'')] stream_none)
       = Inl EmptyStreamResponseError
   \<and> fst (mcpCall sample valid ''tools/list'' (JObj []) False
          (fresh None None [reply 200 [(''content-type'', ''text/event-stream'')] stream_one]))
       = Inr value_first"
proof -
  let ?one = "reply 200 [(''content-type'', ''text/event-stream'')] stream_one"
  let ?none = "reply 200 [(''content-type'', ''text/event-stream; charset=utf-8'')] stream_none"
  have ok: "ok ?one" "ok ?none"
    by (simp_all add: ok_def reply_def)
  have ct: "headers_get ?one ''content-type'' = Some ''text/event-stream''"
    "headers_get ?none ''content-type'' = Some ''text/event-stream; charset=utf-8''"
    by (simp_all add: headers_get_def reply_def)
  have inc: "str_includes ''text/event-stream'' ''text/event-stream''"
    "str_includes ''text/event-stream; charset=utf-8'' ''text/event-stream''"
    by (simp_all add: startsWith_def)
  have body: "resp_body ?one = stream_one" "resp_body ?none = stream_none"
    by (simp_all add: reply_def)
  have fresh: "\<not> expiring valid (fresh None None [?one])" "net (fresh None None [?one]) = ?one # []"
    by (simp_all add: expiring_def valid_def stored_def no_tokens_def fresh_def)
  have parse: "JSON_parse sample = sample_parse"
    by (simp add: sample_def)
  from event_stream_last_frame [OF ok(1) ct(1) inc(1), of sample valid "fresh None None [?one]" "[]"
      "''tools/list''" "JObj []" False]
    event_stream_last_frame [OF ok(2) ct(2) inc(2), of sample valid "fresh None None [?one]" "[]"
      "''tools/list''" "JObj []" False]
    fresh
  show ?thesis
    by (simp add: body parse frames_one frames_none)
qed

text \<open>Two frames qualify: the call returns the second one, not the first.\<close>

theorem event_stream_second_of_two_frames:
  "sse_frames (JSON_parse sample) stream_two = [value_first, value_second]
   \<and> value_first \<noteq> value_second
   \<and> decode_response sample (reply 200 [(''content-type'', ''text/event-stream'')] stream_two)
       = Inr value_second
   \<and> fst (mcpCall sample valid ''tools/list'' (JObj []) False
          (fresh None None [reply 200 [(''content-type'', ''text/event-stream'')] stream_two]))
       = Inr value_second"
proof -
  let ?two = "reply 200 [(''content-type'', ''text/event-stream'')] stream_two"
  have parse: "JSON_parse sample = sample_parse"
    by (simp add: sample_def)
  have "decode_response sample ?two = Inr value_second"
    by (simp add: decode_response_def ok_def reply_def headers_get_def startsWith_def parse
          parseSSEResponse_last frames_two value_second_def)
  moreover have "fst (mcpCall sample valid ''tools/list'' (JObj []) False (fresh None None [?two]))
                   = decode_response sample ?two"
    by (simp add: mcpCall_def mcp_send_def fetch_def fresh_def valid_def stored_def no_tokens_def)
  moreover have "value_first \<noteq> value_second"
    by (simp add: value_first_def value_second_def)
  ultimately show ?thesis
    by (simp add: parse frames_two)
qed


subsection \<open>The session id\<close>

lemma session_header_mcp_request:
  "session_header (mcp_request tokens rpc_method params isInitialize w) =
     (if isInitialize then None
      else (case sessionId w of None \<Rightarrow> None | Some s \<Rightarrow> if s \<noteq> [] then Some s else None))"
  by (simp add: session_header_def mcp_request_def mcp_headers_def split: option.splits)

lemma mcp_send_session:
  "net w = response # rest \<Longrightarrow>
     sessionId (snd (snd (mcp_send J tokens rpc_method params isInitialize w))) =
       (case headers_get response ''mcp-session-id'' of
          None \<Rightarrow> sessionId w
        | Some sid \<Rightarrow> if sid \<noteq> [] then Some sid else sessionId w)"
  by (simp add: mcp_send_def fetch_def capture_session_def Let_def split: option.splits)

lemma mcp_send_no_reply:
  "net w = [] \<Longrightarrow> sessionId (snd (snd (mcp_send J tokens rpc_method params isInitialize w))) = sessionId w"
  by (simp add: mcp_send_def fetch_def Let_def)

lemma mcpCall_mcp_requests:
  assumes "mcpCall J tokens rpc_method params isInitialize w = (r, tokens', w')"
  shows "\<exists>tokens1 w1. sessionId w1 = sessionId w
           \<and> set (filter is_mcp (new_requests w w')) \<subseteq> {mcp_request tokens1 rpc_method params isInitialize w1}"
proof (cases "expiring tokens w")
  case False
  with assms have "mcp_send J tokens rpc_method params isInitialize w = (r, tokens', w')"
    by (simp add: mcpCall_fresh_tokens)
  from mcp_send_effect [OF this]
  have "new_requests w w' = [mcp_request tokens rpc_method params isInitialize (w\<lparr>messageId := messageId w + 1\<rparr>)]"
    by (simp add: new_requests_append)
  then show ?thesis
    by (intro exI [of _ tokens] exI [of _ "w\<lparr>messageId := messageId w + 1\<rparr>"]) simp
next
  case True
  let ?w0 = "console_error ''Token expired, refreshing...'' w"
  obtain r1 w1 where refresh: "refreshTokens J tokens ?w0 = (r1, w1)"
    by (cases "refreshTokens J tokens ?w0")
  note e1 = refreshTokens_effect [OF refresh]
  show ?thesis
  proof (cases r1)
    case (Inl e)
    with assms True refresh have "w' = w1"
      by (auto simp: mcpCall_def expiring_def split: jsfield.splits if_splits)
    with e1 have "filter is_mcp (new_requests w w') = []"
      by (simp add: new_requests_def console_error_def filter_is_mcp_refresh)
    then show ?thesis
      by (intro exI [of _ tokens] exI [of _ w]) simp
  next
    case (Inr tokens1)
    with assms True refresh have "mcp_send J tokens1 rpc_method params isInitialize w1 = (r, tokens', w')"
      by (auto simp: mcpCall_def expiring_def split: jsfield.splits if_splits)
    from mcp_send_effect [OF this] e1
    have "filter is_mcp (new_requests w w')
            = [mcp_request tokens1 rpc_method params isInitialize (w1\<lparr>messageId := messageId w1 + 1\<rparr>)]"
      by (simp add: new_requests_def console_error_def filter_is_mcp_refresh is_mcp_request)
    moreover from e1 have "sessionId (w1\<lparr>messageId := messageId w1 + 1\<rparr>) = sessionId w"
      by (simp add: console_error_def)
    ultimately show ?thesis
      by (intro exI [of _ tokens1] exI [of _ "w1\<lparr>messageId := messageId w1 + 1\<rparr>"]) simp
  qed
qed

text \<open>
  C4 (as the code has it). No \<open>initialize\<close> request carries the \<open>Mcp-Session-Id\<close>
  header. Every other MCP request carries the session id the process holds when the call
  starts, when it holds one (a refresh in between does not change it). The id is captured
  from the response to any MCP request that carries a non-empty \<open>mcp-session-id\<close> header,
  the response to \<open>initialize\<close> included and whatever the status of the response; a later
  response with such a header replaces it.
\<close>

theorem session_id_capture_and_use:
  "(mcpCall J tokens rpc_method params isInitialize w = (r, tokens', w') \<longrightarrow>
      (\<forall>request \<in> set (filter is_mcp (new_requests w w')).
         session_header request =
           (if isInitialize then None
            else (case sessionId w of None \<Rightarrow> None | Some s \<Rightarrow> if s \<noteq> [] then Some s else None))))
   \<and> (\<not> expiring tokens w \<and> net w = response # rest \<longrightarrow>
        sessionId (snd (snd (mcpCall J tokens rpc_method params isInitialize w))) =
          (case headers_get response ''mcp-session-id'' of
             None \<Rightarrow> sessionId w
           | Some sid \<Rightarrow> if sid \<noteq> [] then Some sid else sessionId w))
   \<and> (net w = response # rest \<longrightarrow>
        sessionId (snd (snd (mcp_send J tokens rpc_method params isInitialize w))) =
          (case headers_get response ''mcp-session-id'' of
             None \<Rightarrow> sessionId w
           | Some sid \<Rightarrow> if sid \<noteq> [] then Some sid else sessionId w))"
proof -
  have "session_header request =
          (if isInitialize then None
           else (case sessionId w of None \<Rightarrow> None | Some s \<Rightarrow> if s \<noteq> [] then Some s else None))"
    if run: "mcpCall J tokens rpc_method params isInitialize w = (r, tokens', w')"
      and mem: "request \<in> set (filter is_mcp (new_requests w w'))" for request
  proof -
    from mcpCall_mcp_requests [OF run] obtain tokens1 w1
      where same: "sessionId w1 = sessionId w"
        and only: "set (filter is_mcp (new_requests w w')) \<subseteq> {mcp_request tokens1 rpc_method params isInitialize w1}"
      by blast
    from only mem have "request = mcp_request tokens1 rpc_method params isInitialize w1"
      by blast
    with same show ?thesis
      by (simp add: session_header_mcp_request)
  qed
  then show ?thesis
    by (simp add: mcpCall_fresh_tokens mcp_send_session)
qed


theorem session_id_capture_and_use_witness:
  "map session_header (new_requests
       ((fresh None None [reply 200 [(''mcp-session-id'', ''S2'')] ''{}''])\<lparr>sessionId := Some ''S1''\<rparr>)
       (snd (snd (mcpCall sample valid ''tools/list'' (JObj []) False
          ((fresh None None [reply 200 [(''mcp-session-id'', ''S2'')] ''{}''])\<lparr>sessionId := Some ''S1''\<rparr>)))))
     = [Some ''S1'']
   \<and> sessionId (snd (snd (mcpCall sample valid ''tools/list'' (JObj []) False
          ((fresh None None [reply 200 [(''mcp-session-id'', ''S2'')] ''{}''])\<lparr>sessionId := Some ''S1''\<rparr>))))
     = Some ''S2''
   \<and> map session_header (sent (snd (mcpCalls sample valid three_calls
          (fresh None None [reply 200 [(''mcp-session-id'', ''S1'')] ''{}'', reply 200 [] ''{}'',
                            reply 200 [] ''{}'']))))
     = [None, Some ''S1'', Some ''S1'']"
proof -
  let ?reply = "reply 200 [(''mcp-session-id'', ''S2'')] ''{}''"
  let ?w = "(fresh None None [?reply])\<lparr>sessionId := Some ''S1''\<rparr>"
  have pre: "\<not> expiring valid ?w \<and> net ?w = ?reply # []"
    by (simp add: expiring_def valid_def stored_def no_tokens_def fresh_def)
  have hdr: "headers_get ?reply ''mcp-session-id'' = Some ''S2''"
    by (simp add: headers_get_def reply_def)
  have sent: "map session_header (new_requests ?w
       (snd (snd (mcpCall sample valid ''tools/list'' (JObj []) False ?w)))) = [Some ''S1'']"
    by (simp add: new_requests_def session_header_def valid_def run_defs)
  have three: "map session_header (sent (snd (mcpCalls sample valid three_calls
          (fresh None None [reply 200 [(''mcp-session-id'', ''S1'')] ''{}'', reply 200 [] ''{}'',
                            reply 200 [] ''{}'']))))
     = [None, Some ''S1'', Some ''S1'']"
    by (simp add: three_calls_def session_header_def valid_def run_defs)
  from session_id_capture_and_use [of sample valid "''tools/list''" "JObj []" False ?w
      "fst (mcpCall sample valid ''tools/list'' (JObj []) False ?w)"
      "fst (snd (mcpCall sample valid ''tools/list'' (JObj []) False ?w))"
      "snd (snd (mcpCall sample valid ''tools/list'' (JObj []) False ?w))" ?reply "[]"]
    pre hdr sent three
  show ?thesis
    by simp
qed

text \<open>
  The id that came with the response to \<open>initialize\<close> is already attached to the first
  call after it; and a call that fails with status 500 still captures the id of its
  response.
\<close>

theorem session_id_from_initialize_and_from_failure:
  "map session_header (sent (snd (snd (initializeSession sample valid
       (fresh None None [reply 200 [(''mcp-session-id'', ''S1'')] ''{}'', reply 200 [] ''{}''])))))
     = [None, Some ''S1'']
   \<and> fst (mcpCall sample valid ''tools/list'' (JObj []) False
          (fresh None None [reply 500 [(''mcp-session-id'', ''S9'')] ''down'']))
     = Inl (TransportError 500 ''down'')
   \<and> sessionId (snd (snd (mcpCall sample valid ''tools/list'' (JObj []) False
          (fresh None None [reply 500 [(''mcp-session-id'', ''S9'')] ''down'']))))
     = Some ''S9''"
  by (simp add: initializeSession_def session_header_def valid_def run_defs)


subsection \<open>The callback of the Authorizer\<close>

text \<open>
  C5 (as the code has it). A request to \<open>/callback\<close> whose \<open>state\<close> parameter is absent
  or differs from the CSRF state of the attempt is answered with status 400, the listener
  is closed, and nothing is sent to the token endpoint (the state is unchanged, also when
  further requests were to follow). The promise is rejected with \<open>CsrfError\<close>, unless the
  request carries a non-empty \<open>error\<close> parameter, which is looked at first and rejects
  with \<open>AuthorizationError\<close>.
\<close>

theorem state_mismatch_rejected:
  assumes "pathname req = ''/callback''"
    and "searchParams_get req ''state'' \<noteq> Some csrf_state"
  shows "writeHead (fst (handle_callback J csrf_state verifier clientId req w)) = 400
         \<and> server_closed (fst (handle_callback J csrf_state verifier clientId req w))
         \<and> snd (handle_callback J csrf_state verifier clientId req w) = w
         \<and> settled (fst (handle_callback J csrf_state verifier clientId req w)) =
             (case searchParams_get req ''error'' of
                None \<Rightarrow> Some (Inl CsrfError)
              | Some e \<Rightarrow> if e \<noteq> [] then Some (Inl (AuthorizationError e)) else Some (Inl CsrfError))
         \<and> snd (snd (startCallbackServer J csrf_state verifier clientId (req # reqs) w)) = w"
  using assms by (simp add: handle_callback_def Let_def split: option.splits)

theorem state_mismatch_rejected_witness:
  "handle_callback sample ''good'' ''verifier'' (Val ''abc'')
      (sample_callback [(''code'', ''c1''), (''state'', ''evil'')]) (fresh None None [reply 200 [] grant_text])
     = (\<lparr>writeHead = 400, page_sent = StateMismatchPage, server_closed = True,
         settled = Some (Inl CsrfError)\<rparr>, fresh None None [reply 200 [] grant_text])"
proof -
  let ?req = "sample_callback [(''code'', ''c1''), (''state'', ''evil'')]"
  have path: "pathname ?req = ''/callback''"
    by (simp add: sample_callback_def)
  have mismatch: "searchParams_get ?req ''state'' \<noteq> Some ''good''"
    by (simp add: searchParams_get_def sample_callback_def)
  have page: "page_sent (fst (handle_callback sample ''good'' ''verifier'' (Val ''abc'') ?req
                 (fresh None None [reply 200 [] grant_text]))) = StateMismatchPage"
    by (simp add: handle_callback_def searchParams_get_def sample_callback_def)
  have none: "searchParams_get ?req ''error'' = None"
    by (simp add: searchParams_get_def sample_callback_def)
  from state_mismatch_rejected [OF path mismatch, of sample "''verifier''" "Val ''abc''"
      "fresh None None [reply 200 [] grant_text]"] page none
  show ?thesis
    by (cases "handle_callback sample ''good'' ''verifier'' (Val ''abc'') ?req
                 (fresh None None [reply 200 [] grant_text])")
       (auto simp: handled.equality)
qed

text \<open>A mismatched state together with an \<open>error\<close> parameter: the failure is not \<open>CsrfError\<close>.\<close>

theorem state_mismatch_with_error_parameter:
  "searchParams_get (sample_callback [(''error'', ''access_denied''), (''state'', ''evil'')]) ''state''
     \<noteq> Some ''good''
   \<and> settled (fst (handle_callback sample ''good'' ''verifier'' (Val ''abc'')
        (sample_callback [(''error'', ''access_denied''), (''state'', ''evil'')]) (fresh None None [])))
     = Some (Inl (AuthorizationError ''access_denied''))
   \<and> AuthorizationError ''access_denied'' \<noteq> CsrfError"
  by (simp add: handle_callback_def searchParams_get_def sample_callback_def)

text \<open>
  C7 (as the code has it). A request to \<open>/callback\<close> whose \<open>error\<close> parameter is not empty
  is answered with status 400 and a page that shows the error code and the description, the
  listener is closed, the promise is rejected with an error whose message is the error
  code, and nothing is sent to the token endpoint (the state is unchanged).
\<close>

theorem error_parameter_rejected:
  assumes "pathname req = ''/callback''"
    and "searchParams_get req ''error'' = Some e" and "e \<noteq> []"
  shows "handle_callback J csrf_state verifier clientId req w
           = (\<lparr>writeHead = 400, page_sent = ErrorPage e (searchParams_get req ''error_description''),
               server_closed = True, settled = Some (Inl (AuthorizationError e))\<rparr>, w)
         \<and> startCallbackServer J csrf_state verifier clientId (req # reqs) w
           = ([\<lparr>writeHead = 400, page_sent = ErrorPage e (searchParams_get req ''error_description''),
                server_closed = True, settled = Some (Inl (AuthorizationError e))\<rparr>],
              Inl (AuthorizationError e), w)"
  using assms by (simp add: handle_callback_def Let_def)

theorem error_parameter_rejected_witness:
  "handle_callback sample ''good'' ''verifier'' (Val ''abc'')
      (sample_callback [(''error'', ''access_denied''), (''error_description'', ''User said no''),
                        (''state'', ''good'')])
      (fresh None None [reply 200 [] grant_text])
     = (\<lparr>writeHead = 400, page_sent = ErrorPage ''access_denied'' (Some ''User said no''),
         server_closed = True, settled = Some (Inl (AuthorizationError ''access_denied''))\<rparr>,
        fresh None None [reply 200 [] grant_text])"
proof -
  let ?req = "sample_callback [(''error'', ''access_denied''), (''error_description'', ''User said no''),
                               (''state'', ''good'')]"
  have path: "pathname ?req = ''/callback''"
    by (simp add: sample_callback_def)
  have err: "searchParams_get ?req ''error'' = Some ''access_denied''"
    by (simp add: searchParams_get_def sample_callback_def)
  have desc: "searchParams_get ?req ''error_description'' = Some ''User said no''"
    by (simp add: searchParams_get_def sample_callback_def)
  have nonempty: "''access_denied'' \<noteq> []"
    by simp
  from error_parameter_rejected [OF path err nonempty, of sample "''good''" "''verifier''" "Val ''abc''"
      "fresh None None [reply 200 [] grant_text]"] desc
  show ?thesis
    by simp
qed

text \<open>
  An \<open>error\<close> parameter with an empty value counts as absent: with the right state the
  code is exchanged for tokens.
\<close>

theorem empty_error_parameter_reaches_exchange:
  "searchParams_get (sample_callback [(''error'', []), (''state'', ''good''), (''code'', ''c1'')]) ''error''
     = Some []
   \<and> handle_callback sample ''good'' ''verifier'' (Val ''abc'')
        (sample_callback [(''error'', []), (''state'', ''good''), (''code'', ''c1'')])
        (fresh None None [reply 200 [] grant_text])
     = (\<lparr>writeHead = 200, page_sent = SuccessPage, server_closed = True,
         settled = Some (Inr (Object grant, Val ''abc''))\<rparr>,
        (fresh None None [])\<lparr>now := 1000005,
           sent := [exchange_request (Some ''c1'') (Val ''abc'') ''verifier'']\<rparr>)"
  by (simp add: handle_callback_def searchParams_get_def sample_callback_def exchangeCode_def
        sample_def sample_token_response_def grant_text_def fetch_def fresh_def reply_def ok_def)


subsection \<open>The expiry of issued tokens\<close>

lemma refreshTokens_result:
  assumes run: "refreshTokens J tokens w = (Inr tokens', w')"
  shows "\<exists>response rest json newTokens.
           net w = response # rest
         \<and> parse_token_response J (resp_body response) = Some json
         \<and> token_response_of json = Inr newTokens
         \<and> now w' = now w + int (latency response)
         \<and> tokens' = tokens\<lparr>access_token := tr_access_token newTokens,
                refresh_token := (if truthy_str (tr_refresh_token newTokens)
                                  then tr_refresh_token newTokens else refresh_token tokens),
                expires_at := (case tr_expires_in newTokens of
                                 Val n \<Rightarrow> if n \<noteq> 0 then Val (now w' + n * 1000) else Null
                               | Undefined \<Rightarrow> Null
                               | Null \<Rightarrow> Null)\<rparr>"
proof -
  have rt: "truthy_str (refresh_token tokens)"
  proof (rule ccontr)
    assume "\<not> truthy_str (refresh_token tokens)"
    then have "refreshTokens J tokens w = (Inl NoRefreshToken, w)"
      by (simp add: refreshTokens_def)
    with run show False by simp
  qed
  show ?thesis
  proof (cases "net w")
    case Nil
    with run rt show ?thesis
      by (simp add: refreshTokens_def fetch_def)
  next
    case (Cons response rest)
    let ?w1 = "w\<lparr>sent := sent w @ [refresh_request tokens], net := rest,
                   now := now w + int (latency response)\<rparr>"
    from Cons have sent: "fetch (refresh_request tokens) w = (Inr response, ?w1)"
      by (simp add: fetch_def)
    from run rt sent have ok: "ok response"
      by (auto simp: refreshTokens_def split: if_splits)
    from run rt sent ok obtain json where json: "parse_token_response J (resp_body response) = Some json"
      by (cases "parse_token_response J (resp_body response)") (auto simp: refreshTokens_def)
    from run rt sent ok json obtain newTokens where new: "token_response_of json = Inr newTokens"
      by (cases "token_response_of json") (auto simp: refreshTokens_def)
    from run rt sent ok json new
    have "now w' = now w + int (latency response)"
      by (auto simp: refreshTokens_def Let_def split: if_splits)
    moreover from run rt sent ok json new
    have "tokens' = tokens\<lparr>access_token := tr_access_token newTokens,
                refresh_token := (if truthy_str (tr_refresh_token newTokens)
                                  then tr_refresh_token newTokens else refresh_token tokens),
                expires_at := (case tr_expires_in newTokens of
                                 Val n \<Rightarrow> if n \<noteq> 0 then Val (now w + int (latency response) + n * 1000) else Null
                               | Undefined \<Rightarrow> Null
                               | Null \<Rightarrow> Null)\<rparr>"
      by (cases "tr_expires_in newTokens") (auto simp: refreshTokens_def Let_def split: if_splits)
    ultimately show ?thesis
      using Cons json new by (cases "tr_expires_in newTokens") auto
  qed
qed


lemma startCallbackServer_resolved:
  "startCallbackServer J csrf_state verifier clientId reqs w = (hs, Inr (json, cid), w') \<Longrightarrow>
     \<exists>response rest. net w = response # rest \<and> parse_token_response J (resp_body response) = Some json
       \<and> now w' = now w + int (latency response) \<and> cid = clientId"
proof (induction reqs arbitrary: hs)
  case Nil
  then show ?case by simp
next
  case (Cons req reqs)
  obtain h w1 where step: "handle_callback J csrf_state verifier clientId req w = (h, w1)"
    by (cases "handle_callback J csrf_state verifier clientId req w")
  show ?case
  proof (cases "settled h")
    case None
    with step have same: "w1 = w"
      by (auto simp: handle_callback_def Let_def exchangeCode_def
            split: if_splits prod.splits sum.splits)
    from Cons.prems step None obtain hs' where
      "startCallbackServer J csrf_state verifier clientId reqs w1 = (hs', Inr (json, cid), w')"
      by (auto split: prod.splits)
    with same Cons.IH show ?thesis by simp
  next
    case (Some outcome)
    with Cons.prems step have "outcome = Inr (json, cid)" and "w1 = w'"
      by auto
    with step Some show ?thesis
      by (auto simp: handle_callback_def Let_def exchangeCode_def fetch_def
            split: if_splits prod.splits sum.splits list.splits option.splits)
  qed
qed


lemma registerClient_ok:
  "registerClient J w = (Inr client, w1) \<Longrightarrow>
     \<exists>registration rest. net w = registration # rest \<and> net w1 = rest
       \<and> now w1 = now w + int (latency registration)"
  by (auto simp: registerClient_def fetch_def split: list.splits if_splits option.splits)

lemma main_oauth_flow_success:
  assumes run: "main_oauth_flow J verifier csrf_state browser reqs w = (0, w')"
  shows "\<exists>registration response rest json cid result_tokens.
           net w = registration # response # rest
         \<and> parse_token_response J (resp_body response) = Some json
         \<and> token_response_of json = Inr result_tokens
         \<and> now w' = now w + int (latency registration) + int (latency response)
         \<and> token_file w' = Some (JSON_stringify J (tokenData (now w') cid result_tokens))"
proof -
  obtain r1 w1 where reg: "registerClient J w = (r1, w1)"
    by (cases "registerClient J w")
  with run obtain client where client: "r1 = Inr client"
    by (cases r1) (auto simp: main_oauth_flow_def)
  with run reg obtain clientId where cid: "client_id_of client = Inr clientId"
    by (cases "client_id_of client") (auto simp: main_oauth_flow_def)
  from run reg client cid have browser: browser
    by (auto simp: main_oauth_flow_def split: if_splits)
  obtain hs r2 w2 where serve: "startCallbackServer J csrf_state verifier clientId reqs w1 = (hs, r2, w2)"
    by (cases "startCallbackServer J csrf_state verifier clientId reqs w1")
  with run reg client cid browser obtain json c where resolved: "r2 = Inr (json, c)"
    by (cases r2) (auto simp: main_oauth_flow_def)
  with run reg client cid browser serve obtain result_tokens
    where tokens: "token_response_of json = Inr result_tokens"
    by (cases "token_response_of json") (auto simp: main_oauth_flow_def)
  with run reg client cid browser serve resolved
  have final: "w' = w2\<lparr>token_file := Some (JSON_stringify J (tokenData (now w2) c result_tokens))\<rparr>"
    by (auto simp: main_oauth_flow_def)
  from registerClient_ok [OF reg [unfolded client]] obtain registration rest1
    where n0: "net w = registration # rest1" and n1: "net w1 = rest1"
      and t1: "now w1 = now w + int (latency registration)"
    by blast
  from startCallbackServer_resolved [OF serve [unfolded resolved]] obtain response rest
    where n2: "net w1 = response # rest" and parsed: "parse_token_response J (resp_body response) = Some json"
      and t2: "now w2 = now w1 + int (latency response)"
    by blast
  from n0 n1 n2 have "net w = registration # response # rest"
    by simp
  moreover from final t1 t2 have "now w' = now w + int (latency registration) + int (latency response)"
    by simp
  moreover from final have "token_file w' = Some (JSON_stringify J (tokenData (now w') c result_tokens))"
    by simp
  ultimately show ?thesis
    using parsed tokens by blast
qed

text \<open>
  C6 (as the code has it). A refresh that succeeds has read the token endpoint's reply
  \<open>newTokens\<close>; the clock then shows the time the reply arrived. The record it returns is
  the old one with \<open>access_token\<close> overwritten by \<open>newTokens.access_token\<close>,
  \<open>refresh_token\<close> overwritten only when \<open>newTokens.refresh_token\<close> is a non-empty string,
  and \<open>expires_at\<close> set to that time plus \<open>expires_in * 1000\<close> when \<open>expires_in\<close> is a
  number other than 0, and to \<open>null\<close> when it is absent, \<open>null\<close> or 0. The Authorizer, when
  it exits with status 0, has written the record \<open>tokenData\<close> built from the exchange's
  reply at the time on the clock after that reply, whose \<open>expires_at\<close> follows the same
  rule.
\<close>

theorem expiry_of_issued_tokens:
  "(refreshTokens J tokens w = (Inr tokens', w') \<longrightarrow>
      (\<exists>response rest json newTokens.
           net w = response # rest
         \<and> parse_token_response J (resp_body response) = Some json
         \<and> token_response_of json = Inr newTokens
         \<and> now w' = now w + int (latency response)
         \<and> tokens' = tokens\<lparr>access_token := tr_access_token newTokens,
                refresh_token := (if truthy_str (tr_refresh_token newTokens)
                                  then tr_refresh_token newTokens else refresh_token tokens),
                expires_at := (case tr_expires_in newTokens of
                                 Val n \<Rightarrow> if n \<noteq> 0 then Val (now w' + n * 1000) else Null
                               | Undefined \<Rightarrow> Null
                               | Null \<Rightarrow> Null)\<rparr>))
   \<and> (main_oauth_flow J verifier csrf_state browser reqs w = (0, w') \<longrightarrow>
      (\<exists>registration response rest json cid result_tokens.
           net w = registration # response # rest
         \<and> parse_token_response J (resp_body response) = Some json
         \<and> token_response_of json = Inr result_tokens
         \<and> now w' = now w + int (latency registration) + int (latency response)
         \<and> token_file w' = Some (JSON_stringify J (tokenData (now w') cid result_tokens))))
   \<and> expires_at (tokenData date_now clientId result_tokens) =
        (case tr_expires_in result_tokens of
           Val n \<Rightarrow> if n \<noteq> 0 then Val (date_now + n * 1000) else Null
         | Undefined \<Rightarrow> Null
         | Null \<Rightarrow> Null)"
  using refreshTokens_result [of J tokens w tokens' w']
    main_oauth_flow_success [of J verifier csrf_state browser reqs w w']
  by (simp add: tokenData_def)


theorem expiry_of_issued_tokens_witness:
  "refreshTokens sample stored (fresh None (Some stored_text) [reply 200 [] grant_text])
     = (Inr (stored\<lparr>access_token := Val ''AT1'', refresh_token := Val ''RT1'',
                     expires_at := Val (1000005 + 3600 * 1000)\<rparr>),
        (fresh None (Some refreshed_text) [])\<lparr>now := 1000005, sent := [refresh_request stored]\<rparr>)
   \<and> expires_at (tokenData 1000010 (Val ''abc'') grant) = Val (1000010 + 3600 * 1000)
   \<and> main_oauth_flow sample ''verifier'' ''good'' True
        [sample_callback [(''code'', ''c1''), (''state'', ''good'')]]
        (fresh None None [reply 201 [] registration_text, reply 200 [] grant_text])
     = (0, (fresh None (Some issued_text) [])\<lparr>now := 1000010,
              sent := [register_request, exchange_request (Some ''c1'') (Val ''abc'') ''verifier'']\<rparr>)"
proof -
  have refresh: "refreshTokens sample stored (fresh None (Some stored_text) [reply 200 [] grant_text])
     = (Inr (stored\<lparr>access_token := Val ''AT1'', refresh_token := Val ''RT1'',
                     expires_at := Val (1000005 + 3600 * 1000)\<rparr>),
        (fresh None (Some refreshed_text) [])\<lparr>now := 1000005, sent := [refresh_request stored]\<rparr>)"
    by (simp add: refreshed_def sample_stringify_def run_defs)
  have flow: "main_oauth_flow sample ''verifier'' ''good'' True
        [sample_callback [(''code'', ''c1''), (''state'', ''good'')]]
        (fresh None None [reply 201 [] registration_text, reply 200 [] grant_text])
     = (0, (fresh None (Some issued_text) [])\<lparr>now := 1000010,
              sent := [register_request, exchange_request (Some ''c1'') (Val ''abc'') ''verifier'']\<rparr>)"
    by (simp add: main_oauth_flow_def registerClient_def sample_client_def handle_callback_def
          searchParams_get_def sample_callback_def exchangeCode_def tokenData_def issued_def
          sample_stringify_def refreshed_def run_defs)
  have lifetime: "tr_expires_in grant = Val 3600"
    by (simp add: grant_def no_token_response_def)
  from expiry_of_issued_tokens [of sample stored "fresh None (Some stored_text) [reply 200 [] grant_text]"
      refreshed "fresh None (Some stored_text) []" "''verifier''" "''good''" True "[]" 1000010 "Val ''abc''" grant]
    lifetime
  have "expires_at (tokenData 1000010 (Val ''abc'') grant) = Val (1000010 + 3600 * 1000)"
    by simp
  with refresh flow show ?thesis
    by simp
qed

text \<open>The reply carries \<open>expires_in: 0\<close>: \<open>expires_at\<close> becomes \<open>null\<close>, not the time of receipt.\<close>

theorem expiry_with_zero_lifetime:
  "tr_expires_in grant_zero = Val 0
   \<and> fst (refreshTokens sample stored (fresh None None [reply 200 [] grant_zero_text]))
       = Inr (stored\<lparr>access_token := Val ''AT2'', expires_at := Null\<rparr>)
   \<and> expires_at (tokenData 1000005 (Val ''abc'') grant_zero) = Null
   \<and> Null \<noteq> Val (1000005 + 0 * (1000::int))"
  by (simp add: tokenData_def run_defs)

subsection \<open>An environment blob that is no JSON\<close>

text \<open>
  C10 (as the code has it). When \<open>CIRRA_OAUTH_CACHE\<close> is set, not empty and not parseable
  as JSON, \<open>loadTokens\<close> does not fail: it returns what the token store file parses to,
  and \<open>null\<close> when the file does not exist or is not parseable. When what it returns is
  falsy (\<open>null\<close> for the file that is absent or unreadable, and also a file that holds the
  JSON text \<open>null\<close>, \<open>false\<close>, \<open>0\<close> or \<open>""\<close>), \<open>main\<close> exits with status 1 without
  sending a request or touching the file.
\<close>

theorem unparseable_blob_falls_back_to_file:
  assumes "CIRRA_OAUTH_CACHE w = Some blob" and "blob \<noteq> []" and "parse_credentials J blob = None"
  shows "fst (loadTokens J w) =
           (case token_file w of
              None \<Rightarrow> NonObject JNull
            | Some content \<Rightarrow>
                (case parse_credentials J content of None \<Rightarrow> NonObject JNull | Some v \<Rightarrow> v))
         \<and> (\<not> truthy_res (fst (loadTokens J w)) \<longrightarrow>
              fst (main_call_tool J args w) = 1
              \<and> sent (snd (main_call_tool J args w)) = sent w
              \<and> token_file (snd (main_call_tool J args w)) = token_file w)"
proof -
  from assms have load: "loadTokens J w
      = loadTokens_file J (console_error ''Failed to parse CIRRA_OAUTH_CACHE:'' w)"
    by (simp add: loadTokens_def)
  then have fallback: "fst (loadTokens J w) =
           (case token_file w of
              None \<Rightarrow> NonObject JNull
            | Some content \<Rightarrow>
                (case parse_credentials J content of None \<Rightarrow> NonObject JNull | Some v \<Rightarrow> v))"
    by (simp add: loadTokens_file_def console_error_def split: option.splits)
  have "fst (main_call_tool J args w) = 1 \<and> sent (snd (main_call_tool J args w)) = sent w
          \<and> token_file (snd (main_call_tool J args w)) = token_file w"
    if none: "\<not> truthy_res (fst (loadTokens J w))"
  proof -
    obtain loaded w1 where l: "loadTokens J w = (loaded, w1)"
      by (cases "loadTokens J w")
    from loadTokens_effect [OF l] have "sent w1 = sent w" and "token_file w1 = token_file w"
      by simp_all
    with l none show ?thesis
      by (simp add: main_call_tool_def console_error_def)
  qed
  with fallback show ?thesis
    by blast
qed

theorem unparseable_blob_falls_back_to_file_witness:
  "fst (loadTokens sample (fresh (Some ''not json'') (Some stored_text) [])) = Object stored
   \<and> fst (loadTokens sample (fresh (Some ''not json'') None [])) = NonObject JNull
   \<and> fst (main_call_tool sample ListFlag (fresh (Some ''not json'') None [])) = 1
   \<and> sent (snd (main_call_tool sample ListFlag (fresh (Some ''not json'') None []))) = []"
proof -
  let ?w = "fresh (Some ''not json'') (Some stored_text) []"
  let ?v = "fresh (Some ''not json'') None []"
  have env: "CIRRA_OAUTH_CACHE ?w = Some ''not json''" "CIRRA_OAUTH_CACHE ?v = Some ''not json''"
    "''not json'' \<noteq> []" "parse_credentials sample ''not json'' = None"
    by (simp_all add: fresh_def sample_def sample_credentials_def stored_text_def)
  have store: "token_file ?w = Some stored_text" "token_file ?v = None" "sent ?v = []"
    "parse_credentials sample stored_text = Some (Object stored)"
    by (simp_all add: fresh_def sample_def sample_credentials_def)
  from unparseable_blob_falls_back_to_file [OF env(1) env(3) env(4), of ListFlag]
    unparseable_blob_falls_back_to_file [OF env(2) env(3) env(4), of ListFlag] store
  show ?thesis
    by simp
qed

text \<open>The file exists and parses, to \<open>null\<close>: no credentials, exit status 1.\<close>

theorem no_credentials_from_a_readable_file:
  "token_file (fresh (Some ''not json'') (Some ''null'') []) = Some ''null''
   \<and> parse_credentials sample ''null'' = Some (NonObject JNull)
   \<and> fst (loadTokens sample (fresh (Some ''not json'') (Some ''null'') [])) = NonObject JNull
   \<and> fst (main_call_tool sample ListFlag (fresh (Some ''not json'') (Some ''null'') [])) = 1"
  by (simp add: main_call_tool_def loadTokens_def loadTokens_file_def sample_credentials_def run_defs)


end
